theory Spec2Isabelle
  imports Complex_Main "HOL-Library.Word"
begin

section \<open>JavaScript numbers\<close>

text \<open>
  The driver computes with JavaScript numbers. A finite number is modelled by the rational
  it denotes, with exact arithmetic: the rounding of IEEE 754 doubles and overflow to
  infinity are not represented, so a result stated below for a finite value is the value
  the source computes up to the rounding of its floating-point operations. Integers below
  \<open>2^53\<close> in magnitude, their sums and products in that range, and their quotients by a power
  of two are computed exactly by the source as well; this covers the integer steps of the
  conversions for the 16-bit calibration data that \<open>calibrate\<close> decodes and the raw samples
  that the driver reads. The statements below that hold for all inputs and depend on a
  finite result are made for that range. The special values that a division by zero
  produces (the two infinities, NaN and the negative zero) follow IEEE 754.
  \<open>Fin 0\<close> is the positive zero.
\<close>

datatype jsnum = Fin rat | NegZero | PosInf | NegInf | NaN

definition num :: "int \<Rightarrow> jsnum" where
  "num i = Fin (of_int i)"

fun mag :: "jsnum \<Rightarrow> rat" where
  "mag (Fin q) = q"
| "mag _ = 0"

fun is_neg :: "jsnum \<Rightarrow> bool" where
  "is_neg (Fin q) = (q < 0)"
| "is_neg NegZero = True"
| "is_neg NegInf = True"
| "is_neg _ = False"

fun is_inf :: "jsnum \<Rightarrow> bool" where
  "is_inf PosInf = True"
| "is_inf NegInf = True"
| "is_inf _ = False"

fun is_zero :: "jsnum \<Rightarrow> bool" where
  "is_zero (Fin q) = (q = 0)"
| "is_zero NegZero = True"
| "is_zero _ = False"

definition signed_zero :: "bool \<Rightarrow> jsnum" where
  "signed_zero neg = (if neg then NegZero else Fin 0)"

definition signed_inf :: "bool \<Rightarrow> jsnum" where
  "signed_inf neg = (if neg then NegInf else PosInf)"

text \<open>The value of a finite number; \<open>None\<close> for the infinities and NaN.\<close>

fun finite_value :: "jsnum \<Rightarrow> rat option" where
  "finite_value (Fin q) = Some q"
| "finite_value NegZero = Some 0"
| "finite_value _ = None"

fun js_neg :: "jsnum \<Rightarrow> jsnum" where
  "js_neg (Fin q) = (if q = 0 then NegZero else Fin (- q))"
| "js_neg NegZero = Fin 0"
| "js_neg PosInf = NegInf"
| "js_neg NegInf = PosInf"
| "js_neg NaN = NaN"

text \<open>\<open>a + b\<close>: a zero sum of two finite numbers is the positive zero unless both are \<open>-0\<close>.\<close>

fun js_add :: "jsnum \<Rightarrow> jsnum \<Rightarrow> jsnum" where
  "js_add NaN _ = NaN"
| "js_add _ NaN = NaN"
| "js_add PosInf NegInf = NaN"
| "js_add NegInf PosInf = NaN"
| "js_add PosInf _ = PosInf"
| "js_add _ PosInf = PosInf"
| "js_add NegInf _ = NegInf"
| "js_add _ NegInf = NegInf"
| "js_add NegZero NegZero = NegZero"
| "js_add NegZero (Fin q) = Fin q"
| "js_add (Fin p) NegZero = Fin p"
| "js_add (Fin p) (Fin q) = Fin (p + q)"

definition js_sub :: "jsnum \<Rightarrow> jsnum \<Rightarrow> jsnum" where
  "js_sub a b = js_add a (js_neg b)"

definition js_mul :: "jsnum \<Rightarrow> jsnum \<Rightarrow> jsnum" where
  "js_mul a b =
     (if a = NaN \<or> b = NaN then NaN
      else if is_inf a \<or> is_inf b then
        (if is_zero a \<or> is_zero b then NaN else signed_inf (is_neg a \<noteq> is_neg b))
      else if mag a * mag b = 0 then signed_zero (is_neg a \<noteq> is_neg b)
      else Fin (mag a * mag b))"

definition js_div :: "jsnum \<Rightarrow> jsnum \<Rightarrow> jsnum" where
  "js_div a b =
     (if a = NaN \<or> b = NaN then NaN
      else if is_inf a then (if is_inf b then NaN else signed_inf (is_neg a \<noteq> is_neg b))
      else if is_inf b then signed_zero (is_neg a \<noteq> is_neg b)
      else if is_zero b then (if is_zero a then NaN else signed_inf (is_neg a \<noteq> is_neg b))
      else if mag a = 0 then signed_zero (is_neg a \<noteq> is_neg b)
      else Fin (mag a / mag b))"

text \<open>\<open>Math.floor\<close>: the special values and \<open>-0\<close> are returned unchanged.\<close>

fun js_floor :: "jsnum \<Rightarrow> jsnum" where
  "js_floor (Fin q) = Fin (of_int \<lfloor>q\<rfloor>)"
| "js_floor a = a"

text \<open>\<open>a < b\<close>: false when either side is NaN; the two zeros are equal.\<close>

fun js_lt :: "jsnum \<Rightarrow> jsnum \<Rightarrow> bool" where
  "js_lt NaN _ = False"
| "js_lt _ NaN = False"
| "js_lt PosInf _ = False"
| "js_lt _ NegInf = False"
| "js_lt NegInf _ = True"
| "js_lt _ PosInf = True"
| "js_lt a b = (mag a < mag b)"

text \<open>\<open>2 ** m\<close> for an integer \<open>m\<close>.\<close>

definition pow2 :: "int \<Rightarrow> jsnum" where
  "pow2 m = Fin (if 0 \<le> m then 2 ^ nat m else 1 / 2 ^ nat (- m))"

text \<open>\<open>Number.isInteger\<close>: finite and integral; \<open>-0\<close> is an integer.\<close>

fun isInteger :: "jsnum \<Rightarrow> bool" where
  "isInteger (Fin q) = (of_int \<lfloor>q\<rfloor> = q)"
| "isInteger NegZero = True"
| "isInteger _ = False"


section \<open>Buffers and calibration data\<close>

type_synonym byte = "8 word"

text \<open>
  A Node.js \<open>Buffer\<close> is a list of bytes. The reads below are only used at offsets the
  caller has checked against the length of the buffer.
\<close>

definition readUInt8 :: "byte list \<Rightarrow> nat \<Rightarrow> int" where
  "readUInt8 buf off = uint (buf ! off)"

definition readUInt16BE :: "byte list \<Rightarrow> nat \<Rightarrow> int" where
  "readUInt16BE buf off = uint (buf ! off) * 2 ^ 8 + uint (buf ! (off + 1))"

definition readInt16BE :: "byte list \<Rightarrow> nat \<Rightarrow> int" where
  "readInt16BE buf off =
     (let val = readUInt16BE buf off in if 2 ^ 15 \<le> val then val - 2 ^ 16 else val)"

record calibration =
  ac1 :: int
  ac2 :: int
  ac3 :: int
  ac4 :: int
  ac5 :: int
  ac6 :: int
  b1 :: int
  b2 :: int
  mb :: int
  mc :: int
  md :: int

text \<open>The object literal that \<open>calibrate\<close> freezes and stores.\<close>

definition decode_calibration :: "byte list \<Rightarrow> calibration" where
  "decode_calibration responseBuffer =
     \<lparr> ac1 = readInt16BE responseBuffer 0,
       ac2 = readInt16BE responseBuffer 2,
       ac3 = readInt16BE responseBuffer 4,
       ac4 = readUInt16BE responseBuffer 6,
       ac5 = readUInt16BE responseBuffer 8,
       ac6 = readUInt16BE responseBuffer 10,
       b1 = readInt16BE responseBuffer 12,
       b2 = readInt16BE responseBuffer 14,
       mb = readInt16BE responseBuffer 16,
       mc = readInt16BE responseBuffer 18,
       md = readInt16BE responseBuffer 20 \<rparr>"

section \<open>Driver state, transport and errors\<close>

record oversampling =
  mode :: int
  command :: int
  delay :: nat

definition oss_ultra_low_power :: oversampling where
  "oss_ultra_low_power = \<lparr> mode = 0, command = 0x34, delay = 5 \<rparr>"

definition oss_standard :: oversampling where
  "oss_standard = \<lparr> mode = 1, command = 0x74, delay = 8 \<rparr>"

definition oss_high :: oversampling where
  "oss_high = \<lparr> mode = 2, command = 0xb4, delay = 14 \<rparr>"

definition oss_ultra_high_resolution :: oversampling where
  "oss_ultra_high_resolution = \<lparr> mode = 3, command = 0xf4, delay = 26 \<rparr>"

definition oss_temperature :: oversampling where
  "oss_temperature = \<lparr> mode = 255, command = 0x2e, delay = 8 \<rparr>"

definition reg_calibration :: int where
  "reg_calibration = 0xaa"

definition reg_chipid :: int where
  "reg_chipid = 0xd0"

definition reg_version :: int where
  "reg_version = 0xd1"

definition reg_softreset :: int where
  "reg_softreset = 0xe0"

definition reg_control :: int where
  "reg_control = 0xf4"

definition reg_results :: int where
  "reg_results = 0xf6"

text \<open>
  The errors the driver throws or rejects with, one constructor for each \<open>throw\<close> of the
  source: the \<open>TypeError\<close>s of the validation functions and of the conversions, the
  \<open>Error\<close>s for missing calibration data, short responses and a wrong chip id, the
  rejection of an exhausted retry and the error of a failed close of the bus.
\<close>

datatype error =
    InvalidCommand jsnum
  | InvalidAddress jsnum
  | InvalidBuffer
  | InvalidUncompensatedTemperature jsnum
  | InvalidUncompensatedPressure jsnum
  | CalibrationDataInvalid
  | ResultsDataNotReturned
  | CalibrationDataNotReturned
  | UnexpectedChipId int
  | TransportFailure
  | BusCloseError

text \<open>The calls the driver issues on the promisified bus, with their arguments.\<close>

datatype bus_call =
    ReadByte int int
  | WriteByte int int jsnum
  | ReadI2cBlock int int nat
  | CloseBus

text \<open>
  The bus is an external collaborator. Its behaviour is a parameter: the reply to a call
  may depend on the arguments and on the number of calls issued before it. A read of a
  byte resolves with a value or rejects (\<open>None\<close>); a write resolves or rejects; a block
  read rejects (\<open>None\<close>) or resolves with a response whose \<open>buffer\<close> property is a
  buffer (\<open>Some (Some bytes)\<close>) or something else (\<open>Some None\<close>).
\<close>

record bus =
  bus_readByte :: "nat \<Rightarrow> int \<Rightarrow> int \<Rightarrow> int option"
  bus_writeByte :: "nat \<Rightarrow> int \<Rightarrow> int \<Rightarrow> jsnum \<Rightarrow> bool"
  bus_readI2cBlock :: "nat \<Rightarrow> int \<Rightarrow> int \<Rightarrow> nat \<Rightarrow> byte list option option"
  bus_close :: "nat \<Rightarrow> bool"

text \<open>
  The fields of the driver object. \<open>retries\<close> is \<open>_opts.retryOptions.retries\<close>;
  \<open>busnumber\<close> is \<open>None\<close> when the bus object was supplied by the caller; \<open>trace\<close> records
  the calls issued on the bus so far, oldest first.
\<close>

record sensor =
  address :: int
  busnumber :: "nat option"
  retries :: nat
  oss :: oversampling
  calibrationdata :: "calibration option"
  initialized :: bool
  trace :: "bus_call list"

text \<open>A promise when the event loop has run dry: resolved, rejected, or never settled.\<close>

datatype 'a promise = Resolved 'a | Rejected error | Pending

definition isCalibrated :: "sensor \<Rightarrow> bool" where
  "isCalibrated s = (calibrationdata s \<noteq> None)"

definition isInitialized :: "sensor \<Rightarrow> bool" where
  "isInitialized s = initialized s"

section \<open>Conversion of raw samples\<close>

definition computeB5 :: "sensor \<Rightarrow> jsnum \<Rightarrow> error + jsnum" where
  "computeB5 s ut =
     (case calibrationdata s of
        None \<Rightarrow> Inl CalibrationDataInvalid
      | Some c \<Rightarrow>
          if \<not> isInteger ut then Inl (InvalidUncompensatedTemperature ut)
          else
            let x1 = js_floor (js_div (js_mul (js_sub ut (num (ac6 c))) (num (ac5 c))) (pow2 15));
                x2 = js_div (js_mul (num (mc c)) (pow2 11)) (js_add x1 (num (md c)));
                b5 = js_add x1 x2
            in Inr b5)"

definition convertUncompensatedTemperature :: "sensor \<Rightarrow> jsnum \<Rightarrow> error + jsnum" where
  "convertUncompensatedTemperature s ut =
     (if \<not> isInteger ut then Inl (InvalidUncompensatedTemperature ut)
      else case computeB5 s ut of
        Inl e \<Rightarrow> Inl e
      | Inr b5 \<Rightarrow>
          let temperature = js_floor (js_div (js_add b5 (num 8)) (pow2 4))
          in Inr (js_div temperature (num 10)))"

text \<open>
  The source reuses the variables \<open>x1\<close>, \<open>x2\<close> and \<open>x3\<close>; each assignment is a new
  binding here (\<open>x1a\<close>, \<open>x1b\<close>, ...). \<open>computeB5\<close> has thrown when there is no calibration
  data, so the data is present where the formula reads it.
\<close>

definition convertUncompensatedPressure :: "sensor \<Rightarrow> jsnum \<Rightarrow> jsnum \<Rightarrow> error + jsnum" where
  "convertUncompensatedPressure s ut up =
     (if \<not> isInteger ut then Inl (InvalidUncompensatedTemperature ut)
      else if \<not> isInteger up then Inl (InvalidUncompensatedPressure up)
      else case computeB5 s ut of
        Inl e \<Rightarrow> Inl e
      | Inr b5 \<Rightarrow>
          (case calibrationdata s of
             None \<Rightarrow> Inl CalibrationDataInvalid
           | Some c \<Rightarrow>
          let m = mode (oss s);
              b6 = js_sub b5 (num 4000);
              x1 = js_floor (js_div (js_mul (num (b2 c))
                     (js_floor (js_div (js_mul b6 b6) (pow2 12)))) (pow2 11));
              x2 = js_floor (js_div (js_mul (num (ac2 c)) b6) (pow2 11));
              x3 = js_add x1 x2;
              b3 = js_floor (js_div
                     (js_add (js_mul (js_add (js_mul (num (ac1 c)) (num 4)) x3) (pow2 m)) (num 2))
                     (pow2 2));
              x1a = js_floor (js_div (js_mul (num (ac3 c)) b6) (pow2 13));
              x2a = js_floor (js_div
                      (js_floor (js_mul (num (b1 c)) (js_div (js_mul b6 b6) (pow2 12))))
                      (pow2 16));
              x3a = js_floor (js_div (js_add (js_add x1a x2a) (num 2)) (pow2 2));
              b4 = js_floor (js_div (js_mul (num (ac4 c)) (js_add x3a (num 32768))) (pow2 15));
              b7 = js_mul (js_sub up b3) (js_floor (js_div (num 50000) (pow2 m)));
              p = (if js_lt b7 (num 0x80000000) then js_div (js_mul b7 (num 2)) b4
                   else js_mul (js_div b7 b4) (num 2));
              x1b = js_mul (js_floor (js_div p (pow2 8))) (js_floor (js_div p (pow2 8)));
              x1c = js_floor (js_div (js_mul x1b (num 3038)) (pow2 16));
              x2b = js_floor (js_div (js_mul (num (- 7357)) p) (pow2 16));
              pressure = js_add p
                (js_floor (js_div (js_add (js_add x1c x2b) (num 3791)) (pow2 4)))
          in Inr pressure))"


section \<open>The I2C layer\<close>

definition validatedAddress :: "jsnum \<Rightarrow> error + int" where
  "validatedAddress a =
     (if \<not> isInteger a \<or> js_lt a (num 0) \<or> js_lt (num 0x7f) a then Inl (InvalidAddress a)
      else Inr \<lfloor>mag a\<rfloor>)"

definition validatedCommand :: "jsnum \<Rightarrow> error + int" where
  "validatedCommand cmd =
     (if \<not> isInteger cmd \<or> js_lt cmd (num 0) \<or> js_lt (num 0xff) cmd then Inl (InvalidCommand cmd)
      else Inr \<lfloor>mag cmd\<rfloor>)"

text \<open>A value that is checked with \<open>Buffer.isBuffer\<close>: \<open>None\<close> is anything but a buffer.\<close>

definition validatedBuffer :: "byte list option \<Rightarrow> error + byte list" where
  "validatedBuffer buffer = (case buffer of None \<Rightarrow> Inl InvalidBuffer | Some buf \<Rightarrow> Inr buf)"

definition Buffer_alloc :: "nat \<Rightarrow> byte list" where
  "Buffer_alloc n = replicate n 0"

text \<open>
  Modelled from the spec: the retry utility (the promise-retry package) is not among the
  sources. The transaction is attempted, and attempted again each time it asks for a
  retry, at most \<open>retries\<close> more times; when the last attempt fails too, the promise
  rejects. The waiting between the attempts is not modelled. An attempt takes the state,
  issues its call on the bus and returns \<open>None\<close> when the bus rejected (the \<open>catch\<close>
  handler calls \<open>retry\<close>).
\<close>

fun promiseRetry ::
  "(sensor \<Rightarrow> 'a option \<times> sensor) \<Rightarrow> nat \<Rightarrow> sensor \<Rightarrow> 'a promise \<times> sensor" where
  "promiseRetry fn 0 s =
     (case fn s of
        (Some v, s') \<Rightarrow> (Resolved v, s')
      | (None, s') \<Rightarrow> (Rejected TransportFailure, s'))"
| "promiseRetry fn (Suc n) s =
     (case fn s of
        (Some v, s') \<Rightarrow> (Resolved v, s')
      | (None, s') \<Rightarrow> promiseRetry fn n s')"

definition issue :: "bus_call \<Rightarrow> sensor \<Rightarrow> sensor" where
  "issue call s = s\<lparr>trace := trace s @ [call]\<rparr>"

text \<open>
  The functions of the I2C layer throw synchronously when an argument is invalid
  (\<open>Inl\<close>), and otherwise return the promise of the retried transaction.
\<close>

definition readI2cByte :: "bus \<Rightarrow> jsnum \<Rightarrow> sensor \<Rightarrow> error + (int promise \<times> sensor)" where
  "readI2cByte b cmd0 s =
     (case validatedCommand cmd0 of
        Inl e \<Rightarrow> Inl e
      | Inr cmd \<Rightarrow>
          Inr (promiseRetry
                 (\<lambda>s. (bus_readByte b (length (trace s)) (address s) cmd,
                       issue (ReadByte (address s) cmd) s))
                 (retries s) s))"

definition writeI2cByte ::
  "bus \<Rightarrow> jsnum \<Rightarrow> jsnum \<Rightarrow> sensor \<Rightarrow> error + (unit promise \<times> sensor)" where
  "writeI2cByte b cmd0 byte s =
     (case validatedCommand cmd0 of
        Inl e \<Rightarrow> Inl e
      | Inr cmd \<Rightarrow>
          Inr (promiseRetry
                 (\<lambda>s. (if bus_writeByte b (length (trace s)) (address s) cmd byte then Some () else None,
                       issue (WriteByte (address s) cmd byte) s))
                 (retries s) s))"

definition readI2cBlock ::
  "bus \<Rightarrow> jsnum \<Rightarrow> byte list option \<Rightarrow> sensor
     \<Rightarrow> error + (byte list option promise \<times> sensor)" where
  "readI2cBlock b cmd0 buffer s =
     (case validatedCommand cmd0 of
        Inl e \<Rightarrow> Inl e
      | Inr cmd \<Rightarrow>
          (case validatedBuffer buffer of
             Inl e \<Rightarrow> Inl e
           | Inr buff \<Rightarrow>
               Inr (promiseRetry
                      (\<lambda>s. (bus_readI2cBlock b (length (trace s)) (address s) cmd (length buff),
                            issue (ReadI2cBlock (address s) cmd (length buff)) s))
                      (retries s) s)))"

definition closeI2c :: "bus \<Rightarrow> sensor \<Rightarrow> bool promise \<times> sensor" where
  "closeI2c b s =
     (case busnumber s of
        None \<Rightarrow> (Resolved False, s)
      | Some n \<Rightarrow>
          (if bus_close b (length (trace s)) then (Resolved True, issue CloseBus s)
           else (Rejected BusCloseError, issue CloseBus s)))"

definition set_address :: "jsnum \<Rightarrow> sensor \<Rightarrow> error + sensor" where
  "set_address v s =
     (case validatedAddress v of Inl e \<Rightarrow> Inl e | Inr a \<Rightarrow> Inr (s\<lparr>address := a\<rparr>))"

section \<open>Promise chains\<close>

text \<open>
  \<open>p.then(f)\<close>: the callback runs when \<open>p\<close> resolves; a rejection passes through; while
  \<open>p\<close> never settles neither does the result.
\<close>

definition then_promise ::
  "'a promise \<times> sensor \<Rightarrow> ('a \<Rightarrow> sensor \<Rightarrow> 'b promise \<times> sensor) \<Rightarrow> 'b promise \<times> sensor" where
  "then_promise ps f =
     (case ps of
        (Resolved v, s) \<Rightarrow> f v s
      | (Rejected e, s) \<Rightarrow> (Rejected e, s)
      | (Pending, s) \<Rightarrow> (Pending, s))"

text \<open>
  A call of a function of the I2C layer inside a promise chain: an exception it throws
  rejects the promise of the chain. The driver calls these functions with the registers of
  its table only, which are valid commands, so that no such exception is thrown.
\<close>

definition called :: "sensor \<Rightarrow> error + ('a promise \<times> sensor) \<Rightarrow> 'a promise \<times> sensor" where
  "called s r = (case r of Inl e \<Rightarrow> (Rejected e, s) | Inr ps \<Rightarrow> ps)"

text \<open>\<open>delay(ms)\<close> resolves after the given time; time is not modelled.\<close>

definition delay_ms :: "nat \<Rightarrow> sensor \<Rightarrow> unit promise \<times> sensor" where
  "delay_ms ms s = (Resolved (), s)"

section \<open>The BMP180 driver\<close>

definition getUncompensatedPressure :: "bus \<Rightarrow> sensor \<Rightarrow> jsnum promise \<times> sensor" where
  "getUncompensatedPressure b s =
     then_promise
       (then_promise
          (then_promise
             (called s (writeI2cByte b (num reg_control) (num (command (oss s))) s))
             (\<lambda>_ s. delay_ms (delay (oss s)) s))
          (\<lambda>_ s. called s (readI2cBlock b (num reg_results) (Some (Buffer_alloc 3)) s)))
       (\<lambda>response s.
          case validatedBuffer response of
            Inl e \<Rightarrow> (Rejected e, s)
          | Inr responseBuffer \<Rightarrow>
              if length responseBuffer < 3 then (Rejected ResultsDataNotReturned, s)
              else
                let MSB = readUInt8 responseBuffer 0;
                    LSB = readUInt8 responseBuffer 1;
                    XLSB = readUInt8 responseBuffer 2;
                    up = js_floor (js_div
                           (js_add (js_add (js_mul (num MSB) (pow2 16)) (js_mul (num LSB) (pow2 8)))
                              (num XLSB))
                           (pow2 (8 - mode (oss s))))
                in (Resolved up, s))"

definition getUncompensatedTemperature :: "bus \<Rightarrow> sensor \<Rightarrow> jsnum promise \<times> sensor" where
  "getUncompensatedTemperature b s =
     then_promise
       (then_promise
          (then_promise
             (called s (writeI2cByte b (num reg_control) (num (command oss_temperature)) s))
             (\<lambda>_ s. delay_ms (delay oss_temperature) s))
          (\<lambda>_ s. called s (readI2cBlock b (num reg_results) (Some (Buffer_alloc 2)) s)))
       (\<lambda>response s.
          case validatedBuffer response of
            Inl e \<Rightarrow> (Rejected e, s)
          | Inr responseBuffer \<Rightarrow>
              if length responseBuffer < 2 then (Rejected ResultsDataNotReturned, s)
              else
                let MSB = readUInt8 responseBuffer 0;
                    LSB = readUInt8 responseBuffer 1;
                    ut = js_add (js_mul (num MSB) (pow2 8)) (num LSB)
                in (Resolved ut, s))"

definition set_oss :: "oversampling \<Rightarrow> sensor \<Rightarrow> sensor" where
  "set_oss v s = s\<lparr>oss := v\<rparr>"

definition isValidChipId :: "bus \<Rightarrow> sensor \<Rightarrow> bool promise \<times> sensor" where
  "isValidChipId b s =
     then_promise (called s (readI2cByte b (num reg_chipid) s))
       (\<lambda>response s.
          if response \<noteq> 0x55 then (Rejected (UnexpectedChipId response), s)
          else (Resolved True, s))"

definition softreset :: "bus \<Rightarrow> sensor \<Rightarrow> bool promise \<times> sensor" where
  "softreset b s =
     then_promise (called s (writeI2cByte b (num reg_softreset) (num 0xb6) s))
       (\<lambda>_ s. (Resolved True, s))"

definition calLength :: nat where
  "calLength = 22"

definition calibrate :: "bus \<Rightarrow> sensor \<Rightarrow> bool promise \<times> sensor" where
  "calibrate b s =
     then_promise
       (called s (readI2cBlock b (num reg_calibration) (Some (Buffer_alloc calLength)) s))
       (\<lambda>response s.
          case validatedBuffer response of
            Inl e \<Rightarrow> (Rejected e, s)
          | Inr responseBuffer \<Rightarrow>
              if length responseBuffer < calLength then (Rejected CalibrationDataNotReturned, s)
              else (Resolved True,
                    s\<lparr>calibrationdata := Some (decode_calibration responseBuffer)\<rparr>))"

definition initialize :: "bus \<Rightarrow> sensor \<Rightarrow> bool promise \<times> sensor" where
  "initialize b s =
     then_promise
       (then_promise
          (then_promise (isValidChipId b (s\<lparr>initialized := False\<rparr>))
             (\<lambda>_ s. softreset b s))
          (\<lambda>_ s. calibrate b s))
       (\<lambda>_ s. (Resolved True, s\<lparr>initialized := True\<rparr>))"

definition close_sensor :: "bus \<Rightarrow> sensor \<Rightarrow> bool promise \<times> sensor" where
  "close_sensor b s = closeI2c b s"

text \<open>
  \<open>temperature\<close> and \<open>pressure\<close> build their promise with an executor. The executor
  attaches a callback for the resolved raw sample only, with no handler for a rejection:
  when the raw read rejects, neither \<open>resolve\<close> nor \<open>reject\<close> is ever called.
\<close>

definition temperature :: "bus \<Rightarrow> sensor \<Rightarrow> jsnum promise \<times> sensor" where
  "temperature b s =
     (case getUncompensatedTemperature b s of
        (Resolved ut, s') \<Rightarrow>
          (case convertUncompensatedTemperature s' ut of
             Inr v \<Rightarrow> (Resolved v, s')
           | Inl err \<Rightarrow> (Rejected err, s'))
      | (Rejected e, s') \<Rightarrow> (Pending, s')
      | (Pending, s') \<Rightarrow> (Pending, s'))"

definition pressure :: "bus \<Rightarrow> sensor \<Rightarrow> jsnum promise \<times> sensor" where
  "pressure b s =
     (case getUncompensatedTemperature b s of
        (Resolved ut, s') \<Rightarrow>
          (case getUncompensatedPressure b s' of
             (Resolved up, s'') \<Rightarrow>
               (case convertUncompensatedPressure s'' ut up of
                  Inr v \<Rightarrow> (Resolved v, s'')
                | Inl err \<Rightarrow> (Rejected err, s''))
           | (Rejected e, s'') \<Rightarrow> (Pending, s'')
           | (Pending, s'') \<Rightarrow> (Pending, s''))
      | (Rejected e, s') \<Rightarrow> (Pending, s')
      | (Pending, s') \<Rightarrow> (Pending, s'))"


section \<open>Operations on a driver instance\<close>

text \<open>
  The operations a caller can perform on a driver instance, and the state they leave behind
  together with whether they succeeded (the promise resolved, the setter did not throw).
\<close>

datatype operation =
    IsValidChipId
  | Softreset
  | Calibrate
  | Initialize
  | Temperature
  | Pressure
  | Close
  | SetOss oversampling
  | SetAddress jsnum

definition resolved :: "'a promise \<times> sensor \<Rightarrow> bool \<times> sensor" where
  "resolved ps = (case ps of (Resolved v, s) \<Rightarrow> (True, s) | (p, s) \<Rightarrow> (False, s))"

fun perform :: "bus \<Rightarrow> operation \<Rightarrow> sensor \<Rightarrow> bool \<times> sensor" where
  "perform b IsValidChipId s = resolved (isValidChipId b s)"
| "perform b Softreset s = resolved (softreset b s)"
| "perform b Calibrate s = resolved (calibrate b s)"
| "perform b Initialize s = resolved (initialize b s)"
| "perform b Temperature s = resolved (temperature b s)"
| "perform b Pressure s = resolved (pressure b s)"
| "perform b Close s = resolved (close_sensor b s)"
| "perform b (SetOss v) s = (True, set_oss v s)"
| "perform b (SetAddress v) s =
     (case set_address v s of Inl e \<Rightarrow> (False, s) | Inr s' \<Rightarrow> (True, s'))"

fun perform_all :: "bus \<Rightarrow> operation list \<Rightarrow> sensor \<Rightarrow> sensor" where
  "perform_all b [] s = s"
| "perform_all b (x # xs) s = perform_all b xs (snd (perform b x s))"

section \<open>The reference formula and example inputs\<close>

text \<open>
  The intermediate value \<open>B5\<close> as the specification words it: both quotients are floored
  (\<open>div\<close> on the integers rounds towards minus infinity).
\<close>

definition spec_X1 :: "calibration \<Rightarrow> int \<Rightarrow> int" where
  "spec_X1 c ut = ((ut - ac6 c) * ac5 c) div 2 ^ 15"

definition spec_B5 :: "calibration \<Rightarrow> int \<Rightarrow> int" where
  "spec_B5 c ut = spec_X1 c ut + (mc c * 2 ^ 11) div (spec_X1 c ut + md c)"

text \<open>
  The calibration data that \<open>calibrate\<close> can store: \<open>ac4\<close>, \<open>ac5\<close> and \<open>ac6\<close> are unsigned
  16-bit values, the other fields signed 16-bit values.
\<close>

definition decodable :: "calibration \<Rightarrow> bool" where
  "decodable c =
     (- 32768 \<le> ac1 c \<and> ac1 c \<le> 32767 \<and>
      - 32768 \<le> ac2 c \<and> ac2 c \<le> 32767 \<and>
      - 32768 \<le> ac3 c \<and> ac3 c \<le> 32767 \<and>
      0 \<le> ac4 c \<and> ac4 c \<le> 65535 \<and>
      0 \<le> ac5 c \<and> ac5 c \<le> 65535 \<and>
      0 \<le> ac6 c \<and> ac6 c \<le> 65535 \<and>
      - 32768 \<le> b1 c \<and> b1 c \<le> 32767 \<and>
      - 32768 \<le> b2 c \<and> b2 c \<le> 32767 \<and>
      - 32768 \<le> mb c \<and> mb c \<le> 32767 \<and>
      - 32768 \<le> mc c \<and> mc c \<le> 32767 \<and>
      - 32768 \<le> md c \<and> md c \<le> 32767)"

text \<open>A returned number lies within \<open>tol\<close> of \<open>target\<close>.\<close>

definition within_tolerance :: "rat \<Rightarrow> rat \<Rightarrow> error + jsnum \<Rightarrow> bool" where
  "within_tolerance target tol r =
     (case r of Inr (Fin p) \<Rightarrow> \<bar>p - target\<bar> \<le> tol | _ \<Rightarrow> False)"

text \<open>The JavaScript quotient of the integer \<open>m * 2 ** 11\<close> by a zero divisor.\<close>

definition zero_divisor_quotient :: "int \<Rightarrow> jsnum" where
  "zero_divisor_quotient m = (if m = 0 then NaN else if m < 0 then NegInf else PosInf)"

text \<open>
  Modelled from the spec: the file of default options (\<open>bmp180sensor.defaults\<close>) is not
  among the sources; the default pressure oversampling is \<open>standard\<close>. The other fields
  are those the constructors set: address \<open>0x77\<close>, ten retries, no calibration data, not
  initialized.
\<close>

definition constructed :: "nat option \<Rightarrow> sensor" where
  "constructed busno =
     \<lparr> address = 0x77, busnumber = busno, retries = 10, oss = oss_standard,
       calibrationdata = None, initialized = False, trace = [] \<rparr>"

definition calibrated_with :: "calibration \<Rightarrow> sensor" where
  "calibrated_with c = (constructed (Some 1))\<lparr>calibrationdata := Some c\<rparr>"

text \<open>The calibration block of the specification's example, and the constants it lists.\<close>

definition section8_bytes :: "byte list" where
  "section8_bytes =
     [0x23, 0x29, 0xFF, 0xC2, 0xFC, 0xD5, 0x7F, 0x17, 0x66, 0xA1, 0x80, 0x00,
      0x00, 0x16, 0x00, 0x2C, 0xB4, 0x22, 0x17, 0xC1, 0x00, 0x14]"

definition section8_listed :: calibration where
  "section8_listed =
     \<lparr> ac1 = 9035, ac2 = - 60, ac3 = - 832, ac4 = 32741, ac5 = 26171, ac6 = - 32768,
       b1 = 22, b2 = 44, mb = - 19418, mc = 6099, md = 20 \<rparr>"

text \<open>The worked example of the BMP180 data sheet (oversampling mode 0).\<close>

definition datasheet_calibration :: calibration where
  "datasheet_calibration =
     \<lparr> ac1 = 408, ac2 = - 72, ac3 = - 14383, ac4 = 32741, ac5 = 32757, ac6 = 23153,
       b1 = 6190, b2 = 4, mb = - 32768, mc = - 8711, md = 2868 \<rparr>"

text \<open>Calibration data for which \<open>mc * 2 ** 11 / (x1 + md)\<close> is \<open>0.5\<close> at \<open>ut = 4096\<close>.\<close>

definition half_calibration :: calibration where
  "half_calibration =
     \<lparr> ac1 = 0, ac2 = 0, ac3 = 0, ac4 = 0, ac5 = 32768, ac6 = 0,
       b1 = 0, b2 = 0, mb = 0, mc = 1, md = 0 \<rparr>"

text \<open>Calibration data for which \<open>x1 + md\<close> is zero at \<open>ut = 1\<close>.\<close>

definition degenerate_calibration :: calibration where
  "degenerate_calibration =
     \<lparr> ac1 = 0, ac2 = 0, ac3 = 0, ac4 = 0, ac5 = 32768, ac6 = 0,
       b1 = 0, b2 = 0, mb = 0, mc = 1, md = - 1 \<rparr>"

text \<open>
  Buses: one that answers every transaction, with the example block for every block read;
  one that rejects every transaction; one whose block reads return a single byte; one
  that reports another chip id; one that rejects every write.
\<close>

definition section8_bus :: bus where
  "section8_bus =
     \<lparr> bus_readByte = (\<lambda>n a cmd. Some 0x55),
       bus_writeByte = (\<lambda>n a cmd v. True),
       bus_readI2cBlock = (\<lambda>n a cmd len. Some (Some section8_bytes)),
       bus_close = (\<lambda>n. True) \<rparr>"

definition unplugged_bus :: bus where
  "unplugged_bus =
     \<lparr> bus_readByte = (\<lambda>n a cmd. None),
       bus_writeByte = (\<lambda>n a cmd v. False),
       bus_readI2cBlock = (\<lambda>n a cmd len. None),
       bus_close = (\<lambda>n. False) \<rparr>"

definition short_bus :: bus where
  "short_bus =
     \<lparr> bus_readByte = (\<lambda>n a cmd. Some 0x55),
       bus_writeByte = (\<lambda>n a cmd v. True),
       bus_readI2cBlock = (\<lambda>n a cmd len. Some (Some [0x6c])),
       bus_close = (\<lambda>n. True) \<rparr>"

definition wrong_chip_bus :: bus where
  "wrong_chip_bus =
     \<lparr> bus_readByte = (\<lambda>n a cmd. Some 0x54),
       bus_writeByte = (\<lambda>n a cmd v. True),
       bus_readI2cBlock = (\<lambda>n a cmd len. Some (Some section8_bytes)),
       bus_close = (\<lambda>n. True) \<rparr>"

definition read_only_bus :: bus where
  "read_only_bus =
     \<lparr> bus_readByte = (\<lambda>n a cmd. Some 0x55),
       bus_writeByte = (\<lambda>n a cmd v. False),
       bus_readI2cBlock = (\<lambda>n a cmd len. Some (Some section8_bytes)),
       bus_close = (\<lambda>n. True) \<rparr>"


section \<open>Arithmetic of the conversions\<close>

lemma isInteger_num [simp]: "isInteger (num i)"
  by (simp add: num_def)

lemma finite_value_num [simp]: "finite_value (num i) = Some (of_int i)"
  by (simp add: num_def)

lemma js_sub_num: "js_sub (num a) (num b) = num (a - b)"
  by (simp add: js_sub_def num_def)

lemma pow2_15: "pow2 15 = Fin 32768" and pow2_11: "pow2 11 = Fin 2048" and pow2_4: "pow2 4 = Fin 16"
  by (simp_all add: pow2_def)

lemma js_x1_cases:
  "js_floor (js_div (js_mul (num k) (num a)) (pow2 15)) = num ((k * a) div 2 ^ 15)
   \<or> (js_floor (js_div (js_mul (num k) (num a)) (pow2 15)) = NegZero \<and> (k * a) div 2 ^ 15 = 0)"
proof (cases "k * a = 0")
  case True
  then show ?thesis
    by (auto simp: js_mul_def js_div_def signed_zero_def num_def pow2_15)
next
  case False
  have "\<lfloor>(of_int k * of_int a :: rat) / 32768\<rfloor> = (k * a) div 32768"
    using floor_divide_of_int_eq [of "k * a" 32768, where ?'a = rat] by simp
  with False show ?thesis
    by (auto simp: js_mul_def js_div_def signed_zero_def num_def pow2_15)
qed

lemma js_add_x1_md:
  assumes "x1 = num X \<or> (x1 = NegZero \<and> X = 0)"
  shows "js_add x1 (num m) = num (X + m)"
  using assms by (auto simp: num_def)

lemma finite_value_js_add:
  "finite_value a = Some p \<Longrightarrow> finite_value b = Some q \<Longrightarrow> finite_value (js_add a b) = Some (p + q)"
  by (cases a; cases b) auto

lemma js_mul_num_pow2_11: "js_mul (num m) (pow2 11) = num (m * 2 ^ 11)"
  by (simp add: js_mul_def num_def pow2_11 signed_zero_def)

lemma js_div_num_zero: "js_div (num a) (num 0) = zero_divisor_quotient a"
  by (simp add: js_div_def num_def zero_divisor_quotient_def signed_inf_def)

lemma finite_value_js_div_num:
  "d \<noteq> 0 \<Longrightarrow> finite_value (js_div (num a) (num d)) = Some (of_int a / of_int d)"
  by (simp add: js_div_def num_def signed_zero_def)

lemma js_add_zero_divisor_quotient:
  "x1 = num X \<or> x1 = NegZero \<Longrightarrow> js_add x1 (zero_divisor_quotient m) = zero_divisor_quotient m"
  by (auto simp: zero_divisor_quotient_def num_def)

lemma zero_divisor_quotient_scale: "zero_divisor_quotient (m * 2048) = zero_divisor_quotient m"
  by (simp add: zero_divisor_quotient_def mult_less_0_iff)

lemma computeB5_unfold:
  assumes "calibrationdata s = Some c"
  shows "computeB5 s (num ut) =
     Inr (js_add (js_floor (js_div (js_mul (num (ut - ac6 c)) (num (ac5 c))) (pow2 15)))
            (js_div (num (mc c * 2 ^ 11)) (num (spec_X1 c ut + md c))))"
proof -
  let ?x1 = "js_floor (js_div (js_mul (num (ut - ac6 c)) (num (ac5 c))) (pow2 15))"
  have "js_add ?x1 (num (md c)) = num (spec_X1 c ut + md c)"
    unfolding spec_X1_def by (rule js_add_x1_md) (rule js_x1_cases)
  then show ?thesis
    using assms by (simp add: computeB5_def js_sub_num js_mul_num_pow2_11 Let_def)
qed

lemma computeB5_finite:
  assumes "calibrationdata s = Some c" and "spec_X1 c ut + md c \<noteq> 0"
  shows "\<exists>b5. computeB5 s (num ut) = Inr b5 \<and>
     finite_value b5 = Some (of_int (spec_X1 c ut) + of_int (mc c * 2 ^ 11) / of_int (spec_X1 c ut + md c))"
proof -
  let ?x1 = "js_floor (js_div (js_mul (num (ut - ac6 c)) (num (ac5 c))) (pow2 15))"
  have "finite_value ?x1 = Some (of_int (spec_X1 c ut))"
    using js_x1_cases [of "ut - ac6 c" "ac5 c"] unfolding spec_X1_def by auto
  then show ?thesis
    using assms by (simp add: computeB5_unfold finite_value_js_add finite_value_js_div_num)
qed

lemma computeB5_zero_divisor:
  assumes "calibrationdata s = Some c" and "spec_X1 c ut + md c = 0"
  shows "computeB5 s (num ut) = Inr (zero_divisor_quotient (mc c))"
proof -
  let ?x1 = "js_floor (js_div (js_mul (num (ut - ac6 c)) (num (ac5 c))) (pow2 15))"
  have "?x1 = num (spec_X1 c ut) \<or> ?x1 = NegZero"
    using js_x1_cases [of "ut - ac6 c" "ac5 c"] unfolding spec_X1_def by auto
  then show ?thesis
    using assms
    by (simp add: computeB5_unfold js_div_num_zero js_add_zero_divisor_quotient
        zero_divisor_quotient_scale)
qed

lemma temperature_of_zero_divisor_quotient:
  "js_div (js_floor (js_div (js_add (zero_divisor_quotient m) (num 8)) (pow2 4))) (num 10)
     = zero_divisor_quotient m"
  by (simp add: zero_divisor_quotient_def num_def pow2_4 js_div_def signed_inf_def)

lemma spec_B5_floor:
  "\<lfloor>(of_int (spec_X1 c ut) + of_int (mc c * 2 ^ 11) / of_int (spec_X1 c ut + md c) :: rat)\<rfloor> = spec_B5 c ut"
proof -
  let ?q = "(of_int (mc c * 2 ^ 11) / of_int (spec_X1 c ut + md c) :: rat)"
  have "\<lfloor>of_int (spec_X1 c ut) + ?q\<rfloor> = spec_X1 c ut + \<lfloor>?q\<rfloor>"
    by (rule int_add_floor [symmetric])
  also have "\<lfloor>?q\<rfloor> = (mc c * 2 ^ 11) div (spec_X1 c ut + md c)"
    by (rule floor_divide_of_int_eq)
  finally show ?thesis
    by (simp only: spec_B5_def)
qed

lemma convertUncompensatedPressure_returns:
  assumes "calibrationdata s = Some c" and "isInteger ut" and "isInteger up"
  shows "\<not> isl (convertUncompensatedPressure s ut up)"
  using assms by (simp add: convertUncompensatedPressure_def computeB5_def Let_def)

text \<open>
  The fields that \<open>calibrate\<close> decodes are 16-bit values. For such calibration data and a
  raw temperature of two bytes, \<open>X1\<close> and the divisor \<open>X1 + md\<close> are below \<open>2^18\<close> in
  magnitude, and a quotient by such a divisor that is not an integer is further than
  \<open>2^-18\<close> from every integer.
\<close>

lemma readUInt16BE_range: "0 \<le> readUInt16BE buf off" "readUInt16BE buf off \<le> 65535"
proof -
  have "uint (buf ! off) < 2 ^ 8" and "uint (buf ! (off + 1)) < 2 ^ 8"
    using uint_bounded [of "buf ! off"] uint_bounded [of "buf ! (off + 1)"] by simp_all
  then show "readUInt16BE buf off \<le> 65535"
    by (simp add: readUInt16BE_def)
  show "0 \<le> readUInt16BE buf off"
    by (simp add: readUInt16BE_def)
qed

lemma readInt16BE_range: "- 32768 \<le> readInt16BE buf off" "readInt16BE buf off \<le> 32767"
  using readUInt16BE_range [of buf off] by (simp_all add: readInt16BE_def Let_def)

lemma decodable_decode_calibration: "decodable (decode_calibration buf)"
  by (simp add: decodable_def decode_calibration_def readUInt16BE_range readInt16BE_range)

lemma spec_X1_range:
  assumes "0 \<le> ac5 c" "ac5 c \<le> 65535" "0 \<le> ac6 c" "ac6 c \<le> 65535"
    and "0 \<le> ut" "ut \<le> 65535"
  shows "- 131072 \<le> spec_X1 c ut" and "spec_X1 c ut < 131072"
proof -
  have a: "\<bar>ut - ac6 c\<bar> \<le> 65535" using assms by simp
  have "\<bar>(ut - ac6 c) * ac5 c\<bar> = \<bar>ut - ac6 c\<bar> * ac5 c"
    using assms(1) by (simp add: abs_mult)
  also have "\<dots> \<le> 65535 * 65535"
    using a assms(1,2) by (intro mult_mono) simp_all
  finally have p: "\<bar>(ut - ac6 c) * ac5 c\<bar> \<le> 4294836225" by simp
  show "- 131072 \<le> spec_X1 c ut" and "spec_X1 c ut < 131072"
    using p unfolding spec_X1_def by simp_all
qed

lemma fraction_away_from_integers:
  fixes N D :: int
  assumes "D \<noteq> 0" and "\<not> D dvd N" and "\<bar>D\<bar> < 2 ^ 18"
  shows "of_int (N div D) + 1 / 2 ^ 18 < (of_int N / of_int D :: rat)"
    and "(of_int N / of_int D :: rat) < of_int (N div D) + 1 - 1 / 2 ^ 18"
proof -
  define m where "m = N mod D"
  define f :: rat where "f = of_int \<bar>m\<bar> / of_int \<bar>D\<bar>"
  define e :: rat where "e = 1 / of_int \<bar>D\<bar>"
  define t :: rat where "t = 1 / 2 ^ 18"
  have m0: "m \<noteq> 0" using assms(2) by (simp add: m_def dvd_eq_mod_eq_0)
  have q: "(of_int N / of_int D :: rat) = of_int (N div D) + of_int m / of_int D"
  proof -
    have "D * (N div D) + m = N" by (simp add: m_def)
    then have "(of_int N :: rat) = of_int D * of_int (N div D) + of_int m"
      by (metis of_int_add of_int_mult)
    then show ?thesis using assms(1) by (simp add: field_simps)
  qed
  have "(of_int m / of_int D :: rat) = f"
  proof (cases "0 < D")
    case True
    then have "0 \<le> m" by (simp add: m_def)
    with True show ?thesis by (simp add: f_def)
  next
    case False
    with assms(1) have neg: "D < 0" by simp
    then have "m \<le> 0" by (simp add: m_def)
    then have "\<bar>m\<bar> = - m" by (rule abs_of_nonpos)
    moreover have "\<bar>D\<bar> = - D" using neg by simp
    ultimately show ?thesis by (simp only: f_def of_int_minus minus_divide_divide)
  qed
  with q have qf: "(of_int N / of_int D :: rat) = of_int (N div D) + f" by simp
  have lo: "1 \<le> \<bar>m\<bar>" using m0 by simp
  have hi: "\<bar>m\<bar> \<le> \<bar>D\<bar> - 1"
    using abs_mod_less [of D N] assms(1) by (simp add: m_def)
  have Dpos: "(0 :: rat) < of_int \<bar>D\<bar>" using assms(1) by simp
  have Dsmall: "(of_int \<bar>D\<bar> :: rat) < 2 ^ 18"
    using assms(3) by (metis of_int_less_iff of_int_numeral of_int_power)
  have inv: "t < e"
    unfolding t_def e_def using Dpos Dsmall by (intro divide_strict_left_mono) simp_all
  have "(of_int 1 :: rat) / of_int \<bar>D\<bar> \<le> of_int \<bar>m\<bar> / of_int \<bar>D\<bar>"
    using lo Dpos by (intro divide_right_mono) (simp_all only: of_int_le_iff less_imp_le)
  then have ef: "e \<le> f" by (simp add: e_def f_def)
  have "(of_int \<bar>m\<bar> :: rat) / of_int \<bar>D\<bar> \<le> of_int (\<bar>D\<bar> - 1) / of_int \<bar>D\<bar>"
    using hi Dpos by (intro divide_right_mono) (simp_all only: of_int_le_iff less_imp_le)
  also have "\<dots> = 1 - e"
    using Dpos by (simp add: e_def field_simps)
  finally have fe: "f \<le> 1 - e" by (simp add: f_def)
  show "of_int (N div D) + 1 / 2 ^ 18 < (of_int N / of_int D :: rat)"
    unfolding qf t_def [symmetric] using inv ef by linarith
  show "(of_int N / of_int D :: rat) < of_int (N div D) + 1 - 1 / 2 ^ 18"
    unfolding qf t_def [symmetric] using inv fe by linarith
qed

lemma floor_stable:
  fixes N D :: int and r :: rat
  assumes "D \<noteq> 0" and "\<not> D dvd N" and "\<bar>D\<bar> < 2 ^ 18"
    and "\<bar>r - (of_int X + of_int N / of_int D)\<bar> \<le> 1 / 2 ^ 18"
  shows "\<lfloor>r\<rfloor> = X + N div D"
proof (rule floor_unique)
  note fr = fraction_away_from_integers [OF assms(1-3)]
  show "of_int (X + N div D) \<le> r"
    unfolding of_int_add using fr(1) assms(4) by linarith
  show "r < of_int (X + N div D) + 1"
    unfolding of_int_add using fr(2) assms(4) by linarith
qed

section \<open>The retried transactions\<close>

lemma promiseRetry_state:
  assumes "\<And>s. snd (fn s) = issue (c (address s)) s"
  shows "\<exists>k. 1 \<le> k \<and> k \<le> Suc n \<and>
           snd (promiseRetry fn n s) = s\<lparr>trace := trace s @ replicate k (c (address s))\<rparr>"
proof (induction n arbitrary: s)
  case 0
  have "snd (promiseRetry fn 0 s) = snd (fn s)"
    by (cases "fn s") (auto split: option.splits)
  then have "snd (promiseRetry fn 0 s) = s\<lparr>trace := trace s @ replicate 1 (c (address s))\<rparr>"
    by (simp add: assms issue_def)
  then show ?case by (intro exI [of _ 1]) simp
next
  case (Suc n)
  obtain r s' where fn: "fn s = (r, s')" by (cases "fn s")
  then have s': "s' = issue (c (address s)) s"
    using assms [of s] by simp
  show ?case
  proof (cases r)
    case None
    obtain k where k: "1 \<le> k" "k \<le> Suc n"
      "snd (promiseRetry fn n s') = s'\<lparr>trace := trace s' @ replicate k (c (address s'))\<rparr>"
      using Suc.IH [of s'] by blast
    have "snd (promiseRetry fn (Suc n) s) = s\<lparr>trace := trace s @ replicate (Suc k) (c (address s))\<rparr>"
      using fn None k(3) by (simp add: s' issue_def)
    with k(1,2) show ?thesis
      by (intro exI [of _ "Suc k"]) simp
  next
    case (Some v)
    then have "snd (promiseRetry fn (Suc n) s) = s\<lparr>trace := trace s @ replicate 1 (c (address s))\<rparr>"
      using fn by (simp add: s' issue_def)
    then show ?thesis by (intro exI [of _ 1]) simp
  qed
qed

lemma promiseRetry_settles: "fst (promiseRetry fn n s) \<noteq> Pending"
proof (induction n arbitrary: s)
  case 0
  show ?case by (cases "fn s") (auto split: option.splits)
next
  case (Suc n)
  show ?case
  proof (cases "fn s")
    case (Pair r s')
    with Suc show ?thesis by (cases r) auto
  qed
qed

lemma promiseRetry_rejects:
  "fst (promiseRetry fn n s) = Rejected e \<Longrightarrow> e = TransportFailure"
proof (induction n arbitrary: s)
  case 0
  then show ?case by (cases "fn s") (auto split: option.splits)
next
  case (Suc n)
  then show ?case by (cases "fn s") (auto split: option.splits)
qed

text \<open>
  The outcome of a retried transaction is that of the first attempt the bus answers: the
  attempts before it were rejected, and the promise rejects only when the bus has rejected
  all \<open>retries + 1\<close> attempts.
\<close>

lemma promiseRetry_outcome:
  assumes "\<And>s. fn s = (g (length (trace s)) (address s), issue (c (address s)) s)"
  shows "\<exists>p k. promiseRetry fn n s = (p, s\<lparr>trace := trace s @ replicate k (c (address s))\<rparr>) \<and>
           1 \<le> k \<and> k \<le> Suc n \<and>
           (\<forall>i<k - 1. g (length (trace s) + i) (address s) = None) \<and>
           (case g (length (trace s) + (k - 1)) (address s) of
              Some v \<Rightarrow> p = Resolved v
            | None \<Rightarrow> p = Rejected TransportFailure \<and> k = Suc n)"
proof (induction n arbitrary: s)
  case 0
  show ?case
  proof (cases "g (length (trace s)) (address s)")
    case None
    then have "promiseRetry fn 0 s
        = (Rejected TransportFailure, s\<lparr>trace := trace s @ replicate 1 (c (address s))\<rparr>)"
      by (simp add: assms issue_def)
    with None show ?thesis
      by (intro exI [of _ "Rejected TransportFailure"] exI [of _ 1]) simp
  next
    case (Some v)
    then have "promiseRetry fn 0 s
        = (Resolved v, s\<lparr>trace := trace s @ replicate 1 (c (address s))\<rparr>)"
      by (simp add: assms issue_def)
    with Some show ?thesis
      by (intro exI [of _ "Resolved v"] exI [of _ 1]) simp
  qed
next
  case (Suc n)
  show ?case
  proof (cases "g (length (trace s)) (address s)")
    case (Some v)
    then have "promiseRetry fn (Suc n) s
        = (Resolved v, s\<lparr>trace := trace s @ replicate 1 (c (address s))\<rparr>)"
      by (simp add: assms issue_def)
    with Some show ?thesis
      by (intro exI [of _ "Resolved v"] exI [of _ 1]) simp
  next
    case None
    let ?s' = "issue (c (address s)) s"
    have step: "promiseRetry fn (Suc n) s = promiseRetry fn n ?s'"
      using None by (simp add: assms)
    have len: "length (trace ?s') = Suc (length (trace s))" and adr: "address ?s' = address s"
      by (simp_all add: issue_def)
    obtain p k where r: "promiseRetry fn n ?s'
          = (p, ?s'\<lparr>trace := trace ?s' @ replicate k (c (address ?s'))\<rparr>)"
      and k: "1 \<le> k" "k \<le> Suc n"
      and before: "\<forall>i<k - 1. g (length (trace ?s') + i) (address ?s') = None"
      and last: "case g (length (trace ?s') + (k - 1)) (address ?s') of
              Some v \<Rightarrow> p = Resolved v
            | None \<Rightarrow> p = Rejected TransportFailure \<and> k = Suc n"
      using Suc.IH [of ?s'] by blast
    have st: "promiseRetry fn (Suc n) s
        = (p, s\<lparr>trace := trace s @ replicate (Suc k) (c (address s))\<rparr>)"
      unfolding step using r by (simp add: issue_def)
    have b': "\<forall>i<Suc k - 1. g (length (trace s) + i) (address s) = None"
    proof (intro allI impI)
      fix i assume i: "i < Suc k - 1"
      show "g (length (trace s) + i) (address s) = None"
      proof (cases i)
        case 0
        with None show ?thesis by simp
      next
        case (Suc j)
        with i have "j < k - 1" by simp
        with before have "g (length (trace ?s') + j) (address ?s') = None" by blast
        then show ?thesis by (simp add: len adr Suc)
      qed
    qed
    have idx: "length (trace ?s') + (k - 1) = length (trace s) + (Suc k - 1)"
      using k(1) by (simp add: len)
    have l': "case g (length (trace s) + (Suc k - 1)) (address s) of
              Some v \<Rightarrow> p = Resolved v
            | None \<Rightarrow> p = Rejected TransportFailure \<and> Suc k = Suc (Suc n)"
      using last unfolding idx adr by (simp split: option.splits)
    show ?thesis
      using st k b' l' by (intro exI [of _ p] exI [of _ "Suc k"]) simp
  qed
qed

section \<open>The conversions on the calibration data\<close>

text \<open>
  Claim C1, as the code has it. For every calibrated state whose calibration data is in the
  range that \<open>calibrate\<close> decodes, and every integer raw temperature \<open>ut\<close> from 0 to 65535 (the
  range of the raw read) with \<open>X1 + md \<noteq> 0\<close>, where \<open>X1 = floor((ut - ac6) * ac5 / 2^15)\<close>,
  \<open>computeB5\<close> returns \<open>X1 + X2\<close> where \<open>X2 = mc * 2^11 / (X1 + md)\<close> is the quotient itself,
  not floored: the result is in general not an integer. Its floor is the value of the
  reference formula, \<open>X1 + floor(mc * 2^11 / (X1 + md))\<close>.

  In this range the source computes \<open>X1\<close> and the divisor without rounding. The quotient and
  the sum are exact here, where the source rounds each to the nearest double. The last part
  of the statement says that such rounding does not change the floor: either the quotient
  is an integer, and then so is \<open>B5\<close>, or every number within \<open>2^-18\<close> of the exact \<open>B5\<close> has
  the floor of the reference formula. Outside this range the statement is not made: for
  \<open>ut = 2^53\<close> the source rounds the sum to an integer above the reference value.
\<close>

theorem computeB5_unfloored_quotient:
  assumes "calibrationdata s = Some c" and "decodable c"
    and "0 \<le> ut" and "ut \<le> 65535"
    and "spec_X1 c ut + md c \<noteq> 0"
  shows "\<exists>b5. computeB5 s (num ut) = Inr b5 \<and>
           finite_value b5 =
             Some (of_int (spec_X1 c ut) + of_int (mc c * 2 ^ 11) / of_int (spec_X1 c ut + md c)) \<and>
           \<lfloor>(of_int (spec_X1 c ut) + of_int (mc c * 2 ^ 11) / of_int (spec_X1 c ut + md c) :: rat)\<rfloor>
             = spec_B5 c ut \<and>
           ((spec_X1 c ut + md c) dvd (mc c * 2 ^ 11) \<and>
            (of_int (spec_X1 c ut) + of_int (mc c * 2 ^ 11) / of_int (spec_X1 c ut + md c) :: rat)
              = of_int (spec_B5 c ut)
            \<or>
            (\<forall>r :: rat.
               \<bar>r - (of_int (spec_X1 c ut)
                     + of_int (mc c * 2 ^ 11) / of_int (spec_X1 c ut + md c))\<bar> \<le> 1 / 2 ^ 18
               \<longrightarrow> \<lfloor>r\<rfloor> = spec_B5 c ut))"
proof -
  let ?X = "spec_X1 c ut"
  let ?D = "?X + md c"
  let ?N = "mc c * 2 ^ 11"
  let ?e = "(of_int ?X + of_int ?N / of_int ?D :: rat)"
  obtain b5 where b5: "computeB5 s (num ut) = Inr b5" and v: "finite_value b5 = Some ?e"
    using computeB5_finite [OF assms(1) assms(5)] by blast
  have fl: "\<lfloor>?e\<rfloor> = spec_B5 c ut"
    by (rule spec_B5_floor)
  have X: "- 131072 \<le> ?X" "?X < 131072"
    using assms(2-4) by (intro spec_X1_range; simp add: decodable_def)+
  have "- 32768 \<le> md c" and "md c \<le> 32767"
    using assms(2) by (simp_all add: decodable_def)
  with X have D: "\<bar>?D\<bar> < 2 ^ 18"
    by simp
  have stable: "(?D dvd ?N \<and> ?e = of_int (spec_B5 c ut)) \<or>
      (\<forall>r :: rat. \<bar>r - ?e\<bar> \<le> 1 / 2 ^ 18 \<longrightarrow> \<lfloor>r\<rfloor> = spec_B5 c ut)"
  proof (cases "?D dvd ?N")
    case True
    then obtain k where k: "?N = ?D * k" by (rule dvdE)
    then have "(of_int ?N :: rat) = of_int ?D * of_int k"
      by (metis of_int_mult)
    then have q: "(of_int ?N / of_int ?D :: rat) = of_int k"
      using assms(5) by (simp add: field_simps)
    have "?N div ?D = k"
      using k assms(5) by simp
    then have "?e = of_int (spec_B5 c ut)"
      using q by (simp add: spec_B5_def)
    with True show ?thesis by blast
  next
    case False
    have "\<lfloor>r\<rfloor> = spec_B5 c ut" if "\<bar>r - ?e\<bar> \<le> 1 / 2 ^ 18" for r :: rat
      using floor_stable [OF assms(5) False D that] by (simp only: spec_B5_def)
    then show ?thesis by blast
  qed
  from b5 v fl stable show ?thesis by blast
qed

text \<open>
  The hypotheses of the theorem for claim C1 hold for the calibration data
  \<open>half_calibration\<close> and the raw temperature 4096, where \<open>B5\<close> is 4096.5.
\<close>

theorem computeB5_unfloored_quotient_witness:
  "calibrationdata (calibrated_with half_calibration) = Some half_calibration \<and>
   decodable half_calibration \<and> (0 :: int) \<le> 4096 \<and> (4096 :: int) \<le> 65535 \<and>
   spec_X1 half_calibration 4096 + md half_calibration \<noteq> 0 \<and>
   (\<exists>b5. computeB5 (calibrated_with half_calibration) (num 4096) = Inr b5 \<and>
      finite_value b5 = Some (8193 / 2)) \<and>
   \<lfloor>8193 / 2 :: rat\<rfloor> = spec_B5 half_calibration 4096"
proof -
  have h1: "calibrationdata (calibrated_with half_calibration) = Some half_calibration"
    by (simp add: calibrated_with_def)
  have h2: "decodable half_calibration"
    by (simp add: decodable_def half_calibration_def)
  have h3: "(0 :: int) \<le> 4096" and h4: "(4096 :: int) \<le> 65535"
    by simp_all
  have h5: "spec_X1 half_calibration 4096 + md half_calibration \<noteq> 0"
    by (simp add: spec_X1_def half_calibration_def)
  have e: "(of_int (spec_X1 half_calibration 4096) +
            of_int (mc half_calibration * 2 ^ 11) /
            of_int (spec_X1 half_calibration 4096 + md half_calibration) :: rat) = 8193 / 2"
    by (simp add: spec_X1_def half_calibration_def)
  show ?thesis
    using h1 h2 h3 h4 h5 computeB5_unfloored_quotient [OF h1 h2 h3 h4 h5]
    unfolding e by blast
qed

text \<open>
  Claim C1 as stated fails: with \<open>ac5 = 32768\<close>, \<open>ac6 = 0\<close>, \<open>mc = 1\<close>, \<open>md = 0\<close> and the raw
  temperature 4096, \<open>x1\<close> is 4096 and \<open>x2\<close> is \<open>2048 / 4096 = 0.5\<close>, so that \<open>computeB5\<close>
  returns 4096.5, where the reference formula gives 4096. Every number in this computation
  is a binary fraction, which the source computes without rounding.
\<close>

theorem computeB5_floor_counterexample:
  "computeB5 (calibrated_with half_calibration) (num 4096) = Inr (Fin (8193 / 2)) \<and>
   computeB5 (calibrated_with half_calibration) (num 4096)
     \<noteq> Inr (num (spec_B5 half_calibration 4096))"
  by code_simp

lemma convertUncompensatedTemperature_unfold:
  assumes "computeB5 s ut = Inr b5" and "isInteger ut"
  shows "convertUncompensatedTemperature s ut
           = Inr (js_div (js_floor (js_div (js_add b5 (num 8)) (pow2 4))) (num 10))"
  using assms by (simp add: convertUncompensatedTemperature_def Let_def)

text \<open>
  Claim C2, as the code has it. Given \<open>ac6 = -32768\<close>, \<open>ac5 = 26171\<close>, \<open>mc = 6099\<close>,
  \<open>md = 20\<close> and the raw temperature 27898, \<open>x1\<close> is 48452, \<open>computeB5\<close> returns
  \<open>48452 + 12490752 / 48472\<close> (about 48709.69), and the temperature conversion returns
  304.4 degrees C, that is \<open>floor((B5 + 8) / 2^4) = 3044\<close>, exposed as \<open>3044 / 10\<close>.
\<close>

theorem section8_temperature:
  assumes "calibrationdata s = Some c"
    and "ac6 c = - 32768" and "ac5 c = 26171" and "mc c = 6099" and "md c = 20"
  shows "computeB5 s (num 27898) = Inr (Fin (48452 + 12490752 / 48472)) \<and>
         convertUncompensatedTemperature s (num 27898) = Inr (Fin (3044 / 10))"
proof -
  have x1: "spec_X1 c 27898 = 48452"
    using assms by (simp add: spec_X1_def)
  have e: "js_add (js_floor (js_div (js_mul (num (27898 - - 32768)) (num 26171)) (pow2 15)))
              (js_div (num (6099 * 2 ^ 11)) (num (48452 + 20)))
            = Fin (48452 + 12490752 / 48472)"
    by code_simp
  have b5: "computeB5 s (num 27898) = Inr (Fin (48452 + 12490752 / 48472))"
    using computeB5_unfold [OF assms(1), of 27898] unfolding x1 assms(2-5) e .
  have t: "js_div (js_floor (js_div (js_add (Fin (48452 + 12490752 / 48472)) (num 8)) (pow2 4)))
             (num 10) = Fin (3044 / 10)"
    by code_simp
  have "convertUncompensatedTemperature s (num 27898) = Inr (Fin (3044 / 10))"
    using convertUncompensatedTemperature_unfold [OF b5 isInteger_num] unfolding t .
  with b5 show ?thesis by (rule conjI)
qed

text \<open>
  The hypotheses of the theorem for claim C2 hold for a driver that holds the constants
  the specification lists.
\<close>

theorem section8_temperature_witness:
  "calibrationdata (calibrated_with section8_listed) = Some section8_listed \<and>
   ac6 section8_listed = - 32768 \<and> ac5 section8_listed = 26171 \<and>
   mc section8_listed = 6099 \<and> md section8_listed = 20 \<and>
   computeB5 (calibrated_with section8_listed) (num 27898)
     = Inr (Fin (48452 + 12490752 / 48472)) \<and>
   convertUncompensatedTemperature (calibrated_with section8_listed) (num 27898)
     = Inr (Fin (3044 / 10))"
proof -
  have h1: "calibrationdata (calibrated_with section8_listed) = Some section8_listed"
    by (simp add: calibrated_with_def)
  have h2: "ac6 section8_listed = - 32768" and h3: "ac5 section8_listed = 26171"
    and h4: "mc section8_listed = 6099" and h5: "md section8_listed = 20"
    by (simp_all add: section8_listed_def)
  show ?thesis
    using h1 h2 h3 h4 h5 section8_temperature [OF h1 h2 h3 h4 h5] by simp
qed

text \<open>
  Claim C2 as stated fails: with the given constants and the raw temperature 27898,
  \<open>computeB5\<close> does not return 2399 and the temperature conversion does not return 15.0.
\<close>

theorem section8_temperature_counterexample:
  "computeB5 (calibrated_with section8_listed) (num 27898) \<noteq> Inr (num 2399) \<and>
   convertUncompensatedTemperature (calibrated_with section8_listed) (num 27898) \<noteq> Inr (Fin 15)"
  by code_simp

text \<open>
  Claim C3, as the code has it. For every calibrated state and integer raw temperature
  \<open>ut\<close> such that \<open>X1 + md = 0\<close>, no error is raised: \<open>computeB5\<close> and the temperature
  conversion return the quotient of JavaScript's division by zero, which is \<open>Infinity\<close>
  for a positive \<open>mc\<close>, \<open>-Infinity\<close> for a negative \<open>mc\<close> and \<open>NaN\<close> for \<open>mc = 0\<close>, and the
  pressure conversion returns a number as well, for every integer raw pressure.
\<close>

theorem zero_divisor_not_guarded:
  assumes "calibrationdata s = Some c" and "spec_X1 c ut + md c = 0"
  shows "computeB5 s (num ut) = Inr (zero_divisor_quotient (mc c)) \<and>
         convertUncompensatedTemperature s (num ut) = Inr (zero_divisor_quotient (mc c)) \<and>
         finite_value (zero_divisor_quotient (mc c)) = None \<and>
         \<not> isl (convertUncompensatedPressure s (num ut) (num up))"
proof -
  have b5: "computeB5 s (num ut) = Inr (zero_divisor_quotient (mc c))"
    using assms by (rule computeB5_zero_divisor)
  have t: "convertUncompensatedTemperature s (num ut) = Inr (zero_divisor_quotient (mc c))"
    by (simp add: convertUncompensatedTemperature_def b5 temperature_of_zero_divisor_quotient)
  have nf: "finite_value (zero_divisor_quotient (mc c)) = None"
    by (simp add: zero_divisor_quotient_def)
  have "\<not> isl (convertUncompensatedPressure s (num ut) (num up))"
    using assms(1) by (rule convertUncompensatedPressure_returns) simp_all
  with b5 t nf show ?thesis by simp
qed

text \<open>
  The hypotheses of the theorem for claim C3 hold for the calibration data
  \<open>degenerate_calibration\<close> and the raw temperature 1.
\<close>

theorem zero_divisor_not_guarded_witness:
  "calibrationdata (calibrated_with degenerate_calibration) = Some degenerate_calibration \<and>
   spec_X1 degenerate_calibration 1 + md degenerate_calibration = 0 \<and>
   computeB5 (calibrated_with degenerate_calibration) (num 1) = Inr PosInf \<and>
   convertUncompensatedTemperature (calibrated_with degenerate_calibration) (num 1) = Inr PosInf \<and>
   \<not> isl (convertUncompensatedPressure (calibrated_with degenerate_calibration) (num 1) (num 0))"
proof -
  have h1: "calibrationdata (calibrated_with degenerate_calibration) = Some degenerate_calibration"
    by (simp add: calibrated_with_def)
  have h2: "spec_X1 degenerate_calibration 1 + md degenerate_calibration = 0"
    by (simp add: spec_X1_def degenerate_calibration_def)
  have q: "zero_divisor_quotient (mc degenerate_calibration) = PosInf"
    by (simp add: zero_divisor_quotient_def degenerate_calibration_def)
  show ?thesis
    using h1 h2 zero_divisor_not_guarded [OF h1 h2, of 0] by (simp add: q)
qed

text \<open>
  Claim C3 as stated fails: with \<open>ac5 = 32768\<close>, \<open>ac6 = 0\<close>, \<open>mc = 1\<close>, \<open>md = -1\<close> and the raw
  temperature 1 the divisor \<open>x1 + md\<close> is zero, and the temperature conversion returns
  \<open>Infinity\<close> and the pressure conversion \<open>NaN\<close>, instead of failing.
\<close>

theorem zero_divisor_counterexample:
  "spec_X1 degenerate_calibration 1 + md degenerate_calibration = 0 \<and>
   convertUncompensatedTemperature (calibrated_with degenerate_calibration) (num 1) = Inr PosInf \<and>
   convertUncompensatedPressure (calibrated_with degenerate_calibration) (num 1) (num 0) = Inr NaN"
  by code_simp

text \<open>
  Claim C4, as the code has it. Given the 22-byte block of the example, \<open>calibrate\<close>
  resolves, after one block read of 22 bytes at register \<open>0xAA\<close>, and stores the eleven
  big-endian 16-bit fields at the byte offsets 0, 2, ..., 20 as \<open>ac1 = 9001\<close>, \<open>ac2 = -62\<close>,
  \<open>ac3 = -811\<close>, \<open>ac4 = 32535\<close>, \<open>ac5 = 26273\<close>, \<open>ac6 = 32768\<close>, \<open>b1 = 22\<close>, \<open>b2 = 44\<close>,
  \<open>mb = -19422\<close>, \<open>mc = 6081\<close>, \<open>md = 20\<close>: \<open>ac4\<close>, \<open>ac5\<close> and \<open>ac6\<close> are read as unsigned,
  the other fields as signed.
\<close>

theorem calibrate_section8_block:
  "calibrate section8_bus (constructed (Some 1)) =
     (Resolved True,
      (constructed (Some 1))
        \<lparr> calibrationdata := Some
             \<lparr> ac1 = 9001, ac2 = - 62, ac3 = - 811, ac4 = 32535, ac5 = 26273, ac6 = 32768,
               b1 = 22, b2 = 44, mb = - 19422, mc = 6081, md = 20 \<rparr>,
          trace := [ReadI2cBlock 0x77 0xaa 22] \<rparr>)"
  by code_simp

text \<open>
  Claim C4 as stated fails: the calibration data decoded from the block of the example is
  not the list of constants of the claim (\<open>0x2329\<close> is 9001, not 9035, and the unsigned
  \<open>0x8000\<close> is 32768, not -32768).
\<close>

theorem calibrate_section8_counterexample:
  "calibrationdata (snd (calibrate section8_bus (constructed (Some 1)))) \<noteq> Some section8_listed"
  by code_simp

text \<open>
  Claim C5, as the code has it. Given oversampling mode 1, the raw temperature 27898 and
  the raw pressure 23843, the pressure conversion returns \<open>66357281 / 31647\<close> (about
  2096.80 Pa) for the constants the specification lists, and \<open>27342142 / 3281\<close> (about
  8333.48 Pa) for the constants decoded from the block of the example. The quotients of
  \<open>B5\<close> and of \<open>p\<close> are not truncated, so that the result is not an integer.
\<close>

theorem section8_pressure:
  "convertUncompensatedPressure (calibrated_with section8_listed) (num 27898) (num 23843)
     = Inr (Fin (66357281 / 31647)) \<and>
   convertUncompensatedPressure (calibrated_with (decode_calibration section8_bytes))
       (num 27898) (num 23843)
     = Inr (Fin (27342142 / 3281))"
  by code_simp

text \<open>
  Claim C5 as stated fails: for the constants of the example, as listed and as decoded,
  the pressure conversion is not within 1 Pa of 69964 Pa.
\<close>

theorem section8_pressure_counterexample:
  "\<not> within_tolerance 69964 1
        (convertUncompensatedPressure (calibrated_with section8_listed) (num 27898) (num 23843)) \<and>
   \<not> within_tolerance 69964 1
        (convertUncompensatedPressure (calibrated_with (decode_calibration section8_bytes))
           (num 27898) (num 23843))"
  by code_simp

text \<open>
  On the worked example of the data sheet, the conversions return 15.0 degrees C and a
  pressure within 1 Pa of 69964 Pa.
\<close>

lemma datasheet_example:
  "convertUncompensatedTemperature (calibrated_with datasheet_calibration) (num 27898)
     = Inr (Fin 15) \<and>
   within_tolerance 69964 1
     (convertUncompensatedPressure
        ((calibrated_with datasheet_calibration)\<lparr>oss := oss_ultra_low_power\<rparr>)
        (num 27898) (num 23843))"
  by code_simp

lemma floor_divide_16: "\<lfloor>r / 16\<rfloor> = \<lfloor>r\<rfloor> div 16" for r :: rat
proof (rule floor_unique)
  let ?n = "\<lfloor>r\<rfloor>"
  have d: "16 * (?n div 16) \<le> ?n" and u: "?n < 16 * (?n div 16) + 16"
    by presburger+
  have "(of_int (16 * (?n div 16)) :: rat) \<le> of_int ?n"
    using d by (simp only: of_int_le_iff)
  also have "\<dots> \<le> r" by simp
  finally show "of_int (?n div 16) \<le> r / 16" by simp
  have "r < of_int ?n + 1" by linarith
  also have "(of_int ?n + 1 :: rat) \<le> of_int (16 * (?n div 16) + 16)"
    using u by (metis of_int_le_iff of_int_add of_int_1 zless_imp_add1_zle)
  finally show "r / 16 < of_int (?n div 16) + 1" by simp
qed

lemma finite_value_js_div_Fin:
  "finite_value a = Some p \<Longrightarrow> q \<noteq> 0 \<Longrightarrow> finite_value (js_div a (Fin q)) = Some (p / q)"
  by (cases a) (auto simp: js_div_def signed_zero_def)

lemma finite_value_js_floor:
  "finite_value a = Some p \<Longrightarrow> finite_value (js_floor a) = Some (of_int \<lfloor>p\<rfloor>)"
  by (cases a) auto

text \<open>
  The quotient that \<open>computeB5\<close> leaves unfloored does not show in the temperature: the
  floor of \<open>(B5 + 8) / 2^4\<close> is the same for \<open>B5\<close> and for its floor, so that the
  temperature conversion returns the value of the reference formula whenever the divisor
  \<open>X1 + md\<close> is not zero, for calibration data and raw temperatures of 16 bits.
\<close>

lemma temperature_matches_reference:
  assumes "calibrationdata s = Some c" and "spec_X1 c ut + md c \<noteq> 0"
    and "decodable c" and "0 \<le> ut" and "ut \<le> 65535"
  shows "\<exists>t. convertUncompensatedTemperature s (num ut) = Inr t \<and>
           finite_value t = Some (of_int ((spec_B5 c ut + 8) div 2 ^ 4) / 10)"
proof -
  let ?r = "(of_int (spec_X1 c ut) + of_int (mc c * 2 ^ 11) / of_int (spec_X1 c ut + md c) :: rat)"
  obtain b5 where b5: "computeB5 s (num ut) = Inr b5" and v: "finite_value b5 = Some ?r"
    using computeB5_finite [OF assms(1,2)] by blast
  let ?t = "js_div (js_floor (js_div (js_add b5 (num 8)) (pow2 4))) (num 10)"
  have "finite_value (js_add b5 (num 8)) = Some (?r + 8)"
    using finite_value_js_add [OF v finite_value_num [of 8]] by simp
  then have "finite_value (js_div (js_add b5 (num 8)) (pow2 4)) = Some ((?r + 8) / 16)"
    unfolding pow2_4 by (rule finite_value_js_div_Fin) simp
  then have "finite_value (js_floor (js_div (js_add b5 (num 8)) (pow2 4)))
      = Some (of_int \<lfloor>(?r + 8) / 16\<rfloor>)"
    by (rule finite_value_js_floor)
  then have "finite_value ?t = Some (of_int \<lfloor>(?r + 8) / 16\<rfloor> / 10)"
    unfolding num_def using finite_value_js_div_Fin [of _ _ 10] by simp
  moreover have "\<lfloor>(?r + 8) / 16\<rfloor> = (spec_B5 c ut + 8) div 2 ^ 4"
  proof -
    have "\<lfloor>?r + 8\<rfloor> = \<lfloor>?r\<rfloor> + 8"
      using floor_add_int [of ?r 8] by simp
    then show ?thesis
      by (simp only: floor_divide_16 spec_B5_floor) simp
  qed
  ultimately have "finite_value ?t = Some (of_int ((spec_B5 c ut + 8) div 2 ^ 4) / 10)"
    by simp
  then show ?thesis
    using convertUncompensatedTemperature_unfold [OF b5 isInteger_num] by simp
qed

section \<open>Transactions of the driver\<close>

lemma promiseRetry_result:
  assumes "\<And>s. snd (fn s) = issue (c (address s)) s"
  shows "\<exists>p k. promiseRetry fn n s = (p, s\<lparr>trace := trace s @ replicate k (c (address s))\<rparr>) \<and>
           1 \<le> k \<and> k \<le> Suc n \<and> p \<noteq> Pending"
proof -
  obtain k where k: "1 \<le> k" "k \<le> Suc n"
    and s': "snd (promiseRetry fn n s) = s\<lparr>trace := trace s @ replicate k (c (address s))\<rparr>"
    using promiseRetry_state [of fn c n s, OF assms] by blast
  have p: "fst (promiseRetry fn n s) \<noteq> Pending"
    by (rule promiseRetry_settles)
  have "promiseRetry fn n s
      = (fst (promiseRetry fn n s), s\<lparr>trace := trace s @ replicate k (c (address s))\<rparr>)"
    using s' by (simp add: prod_eq_iff)
  with k p show ?thesis by blast
qed

lemma readI2cByte_valid:
  assumes "validatedCommand cmd0 = Inr cmd"
  shows "\<exists>p k. readI2cByte b cmd0 s
             = Inr (p, s\<lparr>trace := trace s @ replicate k (ReadByte (address s) cmd)\<rparr>) \<and>
           1 \<le> k \<and> k \<le> Suc (retries s) \<and> p \<noteq> Pending"
proof -
  let ?fn = "\<lambda>s. (bus_readByte b (length (trace s)) (address s) cmd,
                    issue (ReadByte (address s) cmd) s)"
  have "readI2cByte b cmd0 s = Inr (promiseRetry ?fn (retries s) s)"
    using assms by (simp add: readI2cByte_def)
  then show ?thesis
    using promiseRetry_result [of ?fn "\<lambda>a. ReadByte a cmd" "retries s" s] by simp
qed

lemma writeI2cByte_valid:
  assumes "validatedCommand cmd0 = Inr cmd"
  shows "\<exists>p k. writeI2cByte b cmd0 v s
             = Inr (p, s\<lparr>trace := trace s @ replicate k (WriteByte (address s) cmd v)\<rparr>) \<and>
           1 \<le> k \<and> k \<le> Suc (retries s) \<and> p \<noteq> Pending"
proof -
  let ?fn = "\<lambda>s. (if bus_writeByte b (length (trace s)) (address s) cmd v then Some () else None,
                    issue (WriteByte (address s) cmd v) s)"
  have "writeI2cByte b cmd0 v s = Inr (promiseRetry ?fn (retries s) s)"
    using assms by (simp add: writeI2cByte_def)
  then show ?thesis
    using promiseRetry_result [of ?fn "\<lambda>a. WriteByte a cmd v" "retries s" s] by simp
qed

lemma readI2cBlock_valid:
  assumes "validatedCommand cmd0 = Inr cmd"
  shows "\<exists>p k. readI2cBlock b cmd0 (Some buff) s
             = Inr (p, s\<lparr>trace := trace s @
                       replicate k (ReadI2cBlock (address s) cmd (length buff))\<rparr>) \<and>
           1 \<le> k \<and> k \<le> Suc (retries s) \<and> p \<noteq> Pending"
proof -
  let ?fn = "\<lambda>s. (bus_readI2cBlock b (length (trace s)) (address s) cmd (length buff),
                    issue (ReadI2cBlock (address s) cmd (length buff)) s)"
  have "readI2cBlock b cmd0 (Some buff) s = Inr (promiseRetry ?fn (retries s) s)"
    using assms by (simp add: readI2cBlock_def validatedBuffer_def)
  then show ?thesis
    using promiseRetry_result [of ?fn "\<lambda>a. ReadI2cBlock a cmd (length buff)" "retries s" s]
    by simp
qed

lemma registers_valid:
  "validatedCommand (num reg_calibration) = Inr reg_calibration"
  "validatedCommand (num reg_chipid) = Inr reg_chipid"
  "validatedCommand (num reg_softreset) = Inr reg_softreset"
  "validatedCommand (num reg_control) = Inr reg_control"
  "validatedCommand (num reg_results) = Inr reg_results"
  by (simp_all add: validatedCommand_def num_def reg_calibration_def reg_chipid_def
      reg_softreset_def reg_control_def reg_results_def)

lemma then_promise_simps [simp]:
  "then_promise (Resolved v, s) f = f v s"
  "then_promise (Rejected e, s) f = (Rejected e, s)"
  "then_promise (Pending, s) f = (Pending, s)"
  by (simp_all add: then_promise_def)

lemma called_simps [simp]:
  "called s (Inr ps) = ps"
  "called s (Inl e) = (Rejected e, s)"
  by (simp_all add: called_def)

lemma isValidChipId_state:
  "\<exists>p k. isValidChipId b s
            = (p, s\<lparr>trace := trace s @ replicate k (ReadByte (address s) reg_chipid)\<rparr>) \<and>
          1 \<le> k \<and> k \<le> Suc (retries s) \<and> p \<noteq> Pending"
proof -
  obtain p k where r: "readI2cByte b (num reg_chipid) s
        = Inr (p, s\<lparr>trace := trace s @ replicate k (ReadByte (address s) reg_chipid)\<rparr>)"
    and k: "1 \<le> k" "k \<le> Suc (retries s)" and p: "p \<noteq> Pending"
    using readI2cByte_valid [OF registers_valid(2), of b s] by blast
  let ?s1 = "s\<lparr>trace := trace s @ replicate k (ReadByte (address s) reg_chipid)\<rparr>"
  have "\<exists>q. isValidChipId b s = (q, ?s1) \<and> q \<noteq> Pending"
  proof (cases p)
    case (Resolved v)
    then show ?thesis by (simp add: isValidChipId_def r)
  next
    case (Rejected e)
    then show ?thesis by (simp add: isValidChipId_def r)
  next
    case Pending
    with p show ?thesis by simp
  qed
  with k show ?thesis by blast
qed

lemma softreset_state:
  "\<exists>p k. softreset b s
            = (p, s\<lparr>trace := trace s @
                      replicate k (WriteByte (address s) reg_softreset (num 0xb6))\<rparr>) \<and>
          1 \<le> k \<and> k \<le> Suc (retries s) \<and> p \<noteq> Pending"
proof -
  obtain p k where r: "writeI2cByte b (num reg_softreset) (num 0xb6) s
        = Inr (p, s\<lparr>trace := trace s @
                     replicate k (WriteByte (address s) reg_softreset (num 0xb6))\<rparr>)"
    and k: "1 \<le> k" "k \<le> Suc (retries s)" and p: "p \<noteq> Pending"
    using writeI2cByte_valid [OF registers_valid(3), of b "num 0xb6" s] by blast
  let ?s1 = "s\<lparr>trace := trace s @
                 replicate k (WriteByte (address s) reg_softreset (num 0xb6))\<rparr>"
  have "\<exists>q. softreset b s = (q, ?s1) \<and> q \<noteq> Pending"
  proof (cases p)
    case (Resolved v)
    then show ?thesis by (simp add: softreset_def r)
  next
    case (Rejected e)
    then show ?thesis by (simp add: softreset_def r)
  next
    case Pending
    with p show ?thesis by simp
  qed
  with k show ?thesis by blast
qed

lemma calibrate_state:
  "\<exists>p k. 1 \<le> k \<and> k \<le> Suc (retries s) \<and> p \<noteq> Pending \<and> p \<noteq> Resolved False \<and>
     ((p = Resolved True \<and>
       (\<exists>buf. calLength \<le> length buf \<and>
          calibrate b s =
            (p, s\<lparr>calibrationdata := Some (decode_calibration buf),
                  trace := trace s @
                    replicate k (ReadI2cBlock (address s) reg_calibration calLength)\<rparr>)))
      \<or> (p \<noteq> Resolved True \<and>
          calibrate b s =
            (p, s\<lparr>trace := trace s @
                    replicate k (ReadI2cBlock (address s) reg_calibration calLength)\<rparr>)))"
proof -
  obtain p k where r: "readI2cBlock b (num reg_calibration) (Some (Buffer_alloc calLength)) s
        = Inr (p, s\<lparr>trace := trace s @
                     replicate k (ReadI2cBlock (address s) reg_calibration calLength)\<rparr>)"
    and k: "1 \<le> k" "k \<le> Suc (retries s)" and p: "p \<noteq> Pending"
    using readI2cBlock_valid [OF registers_valid(1), of b "Buffer_alloc calLength" s]
    by (auto simp: Buffer_alloc_def)
  let ?s1 = "s\<lparr>trace := trace s @
                 replicate k (ReadI2cBlock (address s) reg_calibration calLength)\<rparr>"
  have c: "calibrate b s = then_promise (p, ?s1)
       (\<lambda>response s.
          case validatedBuffer response of
            Inl e \<Rightarrow> (Rejected e, s)
          | Inr responseBuffer \<Rightarrow>
              if length responseBuffer < calLength then (Rejected CalibrationDataNotReturned, s)
              else (Resolved True,
                    s\<lparr>calibrationdata := Some (decode_calibration responseBuffer)\<rparr>))"
    by (simp add: calibrate_def r)
  have "(\<exists>buf. calLength \<le> length buf \<and>
           calibrate b s = (Resolved True, ?s1\<lparr>calibrationdata := Some (decode_calibration buf)\<rparr>))
        \<or> (\<exists>e. calibrate b s = (Rejected e, ?s1))"
  proof (cases p)
    case (Resolved response)
    show ?thesis
    proof (cases response)
      case None
      with Resolved c show ?thesis by (simp add: validatedBuffer_def)
    next
      case (Some buf)
      show ?thesis
      proof (cases "length buf < calLength")
        case True
        with Some Resolved c show ?thesis by (simp add: validatedBuffer_def)
      next
        case False
        then have "calLength \<le> length buf" by simp
        moreover have "calibrate b s
            = (Resolved True, ?s1\<lparr>calibrationdata := Some (decode_calibration buf)\<rparr>)"
          using False Some Resolved c by (simp add: validatedBuffer_def)
        ultimately show ?thesis by blast
      qed
    qed
  next
    case (Rejected e)
    with c show ?thesis by simp
  next
    case Pending
    with p show ?thesis by simp
  qed
  then show ?thesis
  proof
    assume "\<exists>buf. calLength \<le> length buf \<and>
           calibrate b s = (Resolved True, ?s1\<lparr>calibrationdata := Some (decode_calibration buf)\<rparr>)"
    then obtain buf where "calLength \<le> length buf"
      "calibrate b s = (Resolved True, ?s1\<lparr>calibrationdata := Some (decode_calibration buf)\<rparr>)"
      by blast
    then have "calLength \<le> length buf \<and> calibrate b s =
            (Resolved True, s\<lparr>calibrationdata := Some (decode_calibration buf),
                  trace := trace s @
                    replicate k (ReadI2cBlock (address s) reg_calibration calLength)\<rparr>)"
      by simp
    with k show ?thesis
      by (intro exI [of _ "Resolved True"] exI [of _ k]) blast
  next
    assume "\<exists>e. calibrate b s = (Rejected e, ?s1)"
    then obtain e where "calibrate b s = (Rejected e, ?s1)" by blast
    with k show ?thesis
      by (intro exI [of _ "Rejected e"] exI [of _ k]) simp
  qed
qed

section \<open>The byte write\<close>

lemma writeI2cByte_outcome:
  assumes "validatedCommand cmd0 = Inr cmd"
  shows "\<exists>p k. writeI2cByte b cmd0 v s
             = Inr (p, s\<lparr>trace := trace s @ replicate k (WriteByte (address s) cmd v)\<rparr>) \<and>
           1 \<le> k \<and> k \<le> Suc (retries s) \<and> p \<noteq> Pending \<and>
           (\<forall>i<k - 1. \<not> bus_writeByte b (length (trace s) + i) (address s) cmd v) \<and>
           (if bus_writeByte b (length (trace s) + (k - 1)) (address s) cmd v
            then p = Resolved ()
            else p = Rejected TransportFailure \<and> k = Suc (retries s))"
proof -
  let ?g = "\<lambda>n a. if bus_writeByte b n a cmd v then Some () else None"
  let ?fn = "\<lambda>s. (?g (length (trace s)) (address s), issue (WriteByte (address s) cmd v) s)"
  have w: "writeI2cByte b cmd0 v s = Inr (promiseRetry ?fn (retries s) s)"
    using assms by (simp add: writeI2cByte_def)
  obtain p k where r: "promiseRetry ?fn (retries s) s
        = (p, s\<lparr>trace := trace s @ replicate k (WriteByte (address s) cmd v)\<rparr>)"
    and k: "1 \<le> k" "k \<le> Suc (retries s)"
    and before: "\<forall>i<k - 1. ?g (length (trace s) + i) (address s) = None"
    and last: "case ?g (length (trace s) + (k - 1)) (address s) of
                 Some u \<Rightarrow> p = Resolved u
               | None \<Rightarrow> p = Rejected TransportFailure \<and> k = Suc (retries s)"
    using promiseRetry_outcome [of ?fn ?g "\<lambda>a. WriteByte a cmd v" "retries s" s] by auto
  have b': "\<forall>i<k - 1. \<not> bus_writeByte b (length (trace s) + i) (address s) cmd v"
  proof (intro allI impI)
    fix i assume "i < k - 1"
    with before have "?g (length (trace s) + i) (address s) = None" by blast
    then show "\<not> bus_writeByte b (length (trace s) + i) (address s) cmd v"
      by (simp split: if_splits)
  qed
  have l': "if bus_writeByte b (length (trace s) + (k - 1)) (address s) cmd v
            then p = Resolved ()
            else p = Rejected TransportFailure \<and> k = Suc (retries s)"
    using last by (simp split: if_splits)
  have np: "p \<noteq> Pending"
    using l' by (auto split: if_splits)
  show ?thesis
    using w r k b' l' np by (intro exI [of _ p] exI [of _ k]) simp
qed

lemma validatedCommand_range:
  "validatedCommand cmd0 =
     (if isInteger cmd0 \<and> 0 \<le> mag cmd0 \<and> mag cmd0 \<le> 255 then Inr \<lfloor>mag cmd0\<rfloor>
      else Inl (InvalidCommand cmd0))"
  by (cases cmd0) (auto simp: validatedCommand_def num_def)

text \<open>
  Claim C7, as the code has it. The byte write validates its command only: for a command
  that is not an integer in the range 0 to 255 it throws the error of the command
  validation, before any call of the transport and without a retry. The value to write is
  not validated: for a valid command and every value, the transport is called with that
  value, once and again after each rejection, at most \<open>retries + 1\<close> times. The promise
  settles with the outcome of the transport: it resolves at the first call that the
  transport accepts, all calls before it having been rejected, and it rejects when the
  transport has rejected all \<open>retries + 1\<close> calls.
\<close>

theorem writeI2cByte_validates_command_only:
  "(\<not> (isInteger cmd0 \<and> 0 \<le> mag cmd0 \<and> mag cmd0 \<le> 255) \<longrightarrow>
      writeI2cByte b cmd0 v s = Inl (InvalidCommand cmd0)) \<and>
   (isInteger cmd0 \<and> 0 \<le> mag cmd0 \<and> mag cmd0 \<le> 255 \<longrightarrow>
      (\<exists>p k. writeI2cByte b cmd0 v s
                = Inr (p, s\<lparr>trace := trace s @
                          replicate k (WriteByte (address s) \<lfloor>mag cmd0\<rfloor> v)\<rparr>) \<and>
              1 \<le> k \<and> k \<le> Suc (retries s) \<and> p \<noteq> Pending \<and>
              (\<forall>i<k - 1.
                 \<not> bus_writeByte b (length (trace s) + i) (address s) \<lfloor>mag cmd0\<rfloor> v) \<and>
              (if bus_writeByte b (length (trace s) + (k - 1)) (address s) \<lfloor>mag cmd0\<rfloor> v
               then p = Resolved ()
               else p = Rejected TransportFailure \<and> k = Suc (retries s))))"
proof (intro conjI impI)
  assume "\<not> (isInteger cmd0 \<and> 0 \<le> mag cmd0 \<and> mag cmd0 \<le> 255)"
  then have "validatedCommand cmd0 = Inl (InvalidCommand cmd0)"
    by (simp add: validatedCommand_range)
  then show "writeI2cByte b cmd0 v s = Inl (InvalidCommand cmd0)"
    by (simp add: writeI2cByte_def)
next
  assume "isInteger cmd0 \<and> 0 \<le> mag cmd0 \<and> mag cmd0 \<le> 255"
  then have "validatedCommand cmd0 = Inr \<lfloor>mag cmd0\<rfloor>"
    by (simp add: validatedCommand_range)
  then show "\<exists>p k. writeI2cByte b cmd0 v s
                = Inr (p, s\<lparr>trace := trace s @
                          replicate k (WriteByte (address s) \<lfloor>mag cmd0\<rfloor> v)\<rparr>) \<and>
              1 \<le> k \<and> k \<le> Suc (retries s) \<and> p \<noteq> Pending \<and>
              (\<forall>i<k - 1.
                 \<not> bus_writeByte b (length (trace s) + i) (address s) \<lfloor>mag cmd0\<rfloor> v) \<and>
              (if bus_writeByte b (length (trace s) + (k - 1)) (address s) \<lfloor>mag cmd0\<rfloor> v
               then p = Resolved ()
               else p = Rejected TransportFailure \<and> k = Suc (retries s))"
    by (rule writeI2cByte_outcome)
qed

text \<open>
  The hypotheses of the theorem for claim C7 hold for the command 256, which is invalid,
  and for the command \<open>0xF4\<close> with the value 256: on a bus that accepts the write the
  theorem gives one call and a resolved promise, on a bus that rejects it eleven calls and
  a rejected promise.
\<close>

theorem writeI2cByte_validates_command_only_witness:
  "\<not> (isInteger (num 256) \<and> 0 \<le> mag (num 256) \<and> mag (num 256) \<le> 255) \<and>
   writeI2cByte section8_bus (num 256) (num 0) (constructed (Some 1))
     = Inl (InvalidCommand (num 256)) \<and>
   isInteger (num 0xf4) \<and> 0 \<le> mag (num 0xf4) \<and> mag (num 0xf4) \<le> 255 \<and>
   writeI2cByte section8_bus (num 0xf4) (num 256) (constructed (Some 1))
     = Inr (Resolved (),
            (constructed (Some 1))\<lparr>trace := replicate 1 (WriteByte 0x77 0xf4 (num 256))\<rparr>) \<and>
   writeI2cByte unplugged_bus (num 0xf4) (num 256) (constructed (Some 1))
     = Inr (Rejected TransportFailure,
            (constructed (Some 1))\<lparr>trace := replicate 11 (WriteByte 0x77 0xf4 (num 256))\<rparr>)"
proof -
  let ?s = "constructed (Some 1)"
  have h1: "\<not> (isInteger (num 256) \<and> 0 \<le> mag (num 256) \<and> mag (num 256) \<le> 255)"
    by (simp add: num_def)
  have h2: "isInteger (num 0xf4) \<and> 0 \<le> mag (num 0xf4) \<and> mag (num 0xf4) \<le> 255"
    by (simp add: num_def)
  have s: "trace (constructed n) = []" "address (constructed n) = 0x77"
    "retries (constructed n) = 10" "\<lfloor>mag (num 0xf4)\<rfloor> = 0xf4" for n
    by (simp_all add: constructed_def num_def)
  have inv: "writeI2cByte section8_bus (num 256) (num 0) ?s = Inl (InvalidCommand (num 256))"
    using h1 writeI2cByte_validates_command_only [of "num 256" section8_bus "num 0" ?s]
    by blast
  obtain p k where a: "writeI2cByte section8_bus (num 0xf4) (num 256) ?s
        = Inr (p, ?s\<lparr>trace := trace ?s @ replicate k (WriteByte (address ?s) \<lfloor>mag (num 0xf4)\<rfloor> (num 256))\<rparr>)"
    and ak: "1 \<le> k"
    and ab: "\<forall>i<k - 1. \<not> bus_writeByte section8_bus (length (trace ?s) + i) (address ?s)
                \<lfloor>mag (num 0xf4)\<rfloor> (num 256)"
    and al: "if bus_writeByte section8_bus (length (trace ?s) + (k - 1)) (address ?s)
                \<lfloor>mag (num 0xf4)\<rfloor> (num 256)
             then p = Resolved () else p = Rejected TransportFailure \<and> k = Suc (retries ?s)"
    using h2 writeI2cByte_validates_command_only [of "num 0xf4" section8_bus "num 256" ?s]
    by blast
  have "\<not> 0 < k - 1"
    using ab by (auto simp: section8_bus_def)
  with ak have "k = 1" by simp
  moreover have "p = Resolved ()"
    using al by (simp add: section8_bus_def)
  ultimately have ok: "writeI2cByte section8_bus (num 0xf4) (num 256) ?s
      = Inr (Resolved (), ?s\<lparr>trace := replicate 1 (WriteByte 0x77 0xf4 (num 256))\<rparr>)"
    using a by (simp add: s)
  obtain q j where c: "writeI2cByte unplugged_bus (num 0xf4) (num 256) ?s
        = Inr (q, ?s\<lparr>trace := trace ?s @ replicate j (WriteByte (address ?s) \<lfloor>mag (num 0xf4)\<rfloor> (num 256))\<rparr>)"
    and cl: "if bus_writeByte unplugged_bus (length (trace ?s) + (j - 1)) (address ?s)
                \<lfloor>mag (num 0xf4)\<rfloor> (num 256)
             then q = Resolved () else q = Rejected TransportFailure \<and> j = Suc (retries ?s)"
    using h2 writeI2cByte_validates_command_only [of "num 0xf4" unplugged_bus "num 256" ?s]
    by blast
  have "q = Rejected TransportFailure" and "j = 11"
    using cl by (simp_all add: unplugged_bus_def s)
  then have rej: "writeI2cByte unplugged_bus (num 0xf4) (num 256) ?s
      = Inr (Rejected TransportFailure,
             ?s\<lparr>trace := replicate 11 (WriteByte 0x77 0xf4 (num 256))\<rparr>)"
    using c by (simp add: s)
  from h1 h2 inv ok rej show ?thesis by blast
qed

text \<open>
  Claim C7 as stated fails: the write of the value 256 to the register \<open>0xF4\<close> does not fail
  with a validation error. The value is handed to the transport; the write resolves when
  the transport accepts it, and it is retried eleven times when the transport rejects it.
\<close>

theorem writeI2cByte_value_counterexample:
  "writeI2cByte section8_bus (num 0xf4) (num 256) (constructed (Some 1))
     = Inr (Resolved (), (constructed (Some 1))\<lparr>trace := [WriteByte 0x77 0xf4 (Fin 256)]\<rparr>) \<and>
   writeI2cByte unplugged_bus (num 0xf4) (num 256) (constructed (Some 1))
     = Inr (Rejected TransportFailure,
            (constructed (Some 1))\<lparr>trace := replicate 11 (WriteByte 0x77 0xf4 (Fin 256))\<rparr>)"
  by code_simp


section \<open>The bring-up sequence\<close>

lemma initialize_cases:
  "initialize b s =
     (case isValidChipId b (s\<lparr>initialized := False\<rparr>) of
        (Resolved v1, s1) \<Rightarrow>
          (case softreset b s1 of
             (Resolved v2, s2) \<Rightarrow>
               (case calibrate b s2 of
                  (Resolved v3, s3) \<Rightarrow> (Resolved True, s3\<lparr>initialized := True\<rparr>)
                | (Rejected e, s3) \<Rightarrow> (Rejected e, s3)
                | (Pending, s3) \<Rightarrow> (Pending, s3))
           | (Rejected e, s2) \<Rightarrow> (Rejected e, s2)
           | (Pending, s2) \<Rightarrow> (Pending, s2))
      | (Rejected e, s1) \<Rightarrow> (Rejected e, s1)
      | (Pending, s1) \<Rightarrow> (Pending, s1))"
  by (simp add: initialize_def then_promise_def split: prod.splits promise.splits)

lemma isValidChipId_frame:
  assumes "isValidChipId b s = (p, s')"
  shows "initialized s' = initialized s" and "calibrationdata s' = calibrationdata s"
    and "address s' = address s" and "retries s' = retries s"
  using isValidChipId_state [of b s] assms by auto

lemma softreset_frame:
  assumes "softreset b s = (p, s')"
  shows "initialized s' = initialized s" and "calibrationdata s' = calibrationdata s"
    and "address s' = address s" and "retries s' = retries s"
  using softreset_state [of b s] assms by auto

lemma calibrate_frame:
  assumes "calibrate b s = (p, s')"
  shows "initialized s' = initialized s" and "address s' = address s"
    and "retries s' = retries s"
  using calibrate_state [of s b] assms by auto

lemma calibrate_trace:
  "\<exists>p t k. calibrate b s = (p, t) \<and> p \<noteq> Pending \<and> 1 \<le> k \<and>
     trace t = trace s @ replicate k (ReadI2cBlock (address s) reg_calibration calLength)"
  using calibrate_state [of s b] by auto

lemma initialize_flag:
  "initialized (snd (initialize b s)) = (fst (initialize b s) = Resolved True)"
proof -
  obtain p1 s1 where r1: "isValidChipId b (s\<lparr>initialized := False\<rparr>) = (p1, s1)"
    by (cases "isValidChipId b (s\<lparr>initialized := False\<rparr>)")
  obtain p2 s2 where r2: "softreset b s1 = (p2, s2)"
    by (cases "softreset b s1")
  obtain p3 s3 where r3: "calibrate b s2 = (p3, s3)"
    by (cases "calibrate b s2")
  have f1: "\<not> initialized s1"
    using isValidChipId_frame(1) [OF r1] by simp
  have f2: "\<not> initialized s2"
    using softreset_frame(1) [OF r2] f1 by simp
  have f3: "\<not> initialized s3"
    using calibrate_frame(1) [OF r3] f2 by simp
  show ?thesis
    using f1 f2 f3
    by (cases p1; cases p2; cases p3) (simp_all add: initialize_cases r1 r2 r3)
qed

lemma initialize_trace:
  "\<exists>i j k. trace (snd (initialize b s)) =
             trace s @ replicate i (ReadByte (address s) reg_chipid)
               @ replicate j (WriteByte (address s) reg_softreset (num 0xb6))
               @ replicate k (ReadI2cBlock (address s) reg_calibration calLength) \<and>
           1 \<le> i \<and> (1 \<le> j \<or> k = 0) \<and>
           (fst (initialize b s) = Resolved True \<longrightarrow> 1 \<le> j \<and> 1 \<le> k)"
proof -
  let ?c1 = "ReadByte (address s) reg_chipid"
  let ?c2 = "WriteByte (address s) reg_softreset (num 0xb6)"
  let ?c3 = "ReadI2cBlock (address s) reg_calibration calLength"
  let ?s0 = "s\<lparr>initialized := False\<rparr>"
  obtain p1 i where r1: "isValidChipId b ?s0 = (p1, ?s0\<lparr>trace := trace s @ replicate i ?c1\<rparr>)"
    and i: "1 \<le> i" and p1: "p1 \<noteq> Pending"
    using isValidChipId_state [of b ?s0] by auto
  let ?s1 = "?s0\<lparr>trace := trace s @ replicate i ?c1\<rparr>"
  show ?thesis
  proof (cases p1)
    case (Rejected e)
    then have "initialize b s = (Rejected e, ?s1)"
      by (simp add: initialize_cases r1)
    then have "trace (snd (initialize b s)) = trace s @ replicate i ?c1 @ replicate 0 ?c2 @ replicate 0 ?c3"
      and "fst (initialize b s) \<noteq> Resolved True"
      by simp_all
    with i show ?thesis by blast
  next
    case Pending
    with p1 show ?thesis by simp
  next
    case R1: (Resolved v1)
    obtain p2 j where r2: "softreset b ?s1 = (p2, ?s1\<lparr>trace := trace ?s1 @ replicate j ?c2\<rparr>)"
      and j: "1 \<le> j" and p2: "p2 \<noteq> Pending"
      using softreset_state [of b ?s1] by auto
    let ?s2 = "?s1\<lparr>trace := trace ?s1 @ replicate j ?c2\<rparr>"
    show ?thesis
    proof (cases p2)
      case (Rejected e)
      then have "initialize b s = (Rejected e, ?s2)"
        by (simp add: initialize_cases r1 R1 r2)
      then have "trace (snd (initialize b s)) = trace s @ replicate i ?c1 @ replicate j ?c2 @ replicate 0 ?c3"
        and "fst (initialize b s) \<noteq> Resolved True"
        by simp_all
      with i j show ?thesis by blast
    next
      case Pending
      with p2 show ?thesis by simp
    next
      case R2: (Resolved v2)
      obtain p3 s3 k where r3: "calibrate b ?s2 = (p3, s3)" and p3: "p3 \<noteq> Pending"
        and k: "1 \<le> k" and t3: "trace s3 = trace ?s2 @ replicate k ?c3"
        using calibrate_trace [of b ?s2] by auto
      have "trace (snd (initialize b s)) = trace s3"
        using p3 r3 by (cases p3) (simp_all add: initialize_cases r1 R1 r2 R2)
      then have "trace (snd (initialize b s)) = trace s @ replicate i ?c1 @ replicate j ?c2 @ replicate k ?c3"
        using t3 by simp
      with i j k show ?thesis by blast
    qed
  qed
qed

text \<open>
  Claim C8. \<open>initialize\<close> first sets the flag \<open>_initialized\<close> to false and then runs the check
  of the chip id, the soft reset and the calibration, in this order. When a step rejects,
  \<open>initialize\<close> rejects with the error of that step, in the state that step left: the
  later steps are not run, and the flag is false. When the three steps resolve,
  \<open>initialize\<close> resolves with true and the flag is true. The flag is false in every
  state between the steps, and it is true afterwards exactly when \<open>initialize\<close> resolved.
  The calls issued on the bus are reads of the chip id, followed by writes of the reset
  command, followed by block reads of the calibration data; there is no calibration read
  without a reset write before it, and a successful run has at least one of each.
\<close>

theorem initialize_strict_sequence:
  "(isValidChipId b (s\<lparr>initialized := False\<rparr>) = (Rejected e, s1) \<longrightarrow>
      initialize b s = (Rejected e, s1) \<and> \<not> isInitialized s1) \<and>
   (isValidChipId b (s\<lparr>initialized := False\<rparr>) = (Resolved v1, s1) \<and>
    softreset b s1 = (Rejected e, s2) \<longrightarrow>
      initialize b s = (Rejected e, s2) \<and> \<not> isInitialized s1 \<and> \<not> isInitialized s2) \<and>
   (isValidChipId b (s\<lparr>initialized := False\<rparr>) = (Resolved v1, s1) \<and>
    softreset b s1 = (Resolved v2, s2) \<and> calibrate b s2 = (Rejected e, s3) \<longrightarrow>
      initialize b s = (Rejected e, s3) \<and>
      \<not> isInitialized s1 \<and> \<not> isInitialized s2 \<and> \<not> isInitialized s3) \<and>
   (isValidChipId b (s\<lparr>initialized := False\<rparr>) = (Resolved v1, s1) \<and>
    softreset b s1 = (Resolved v2, s2) \<and> calibrate b s2 = (Resolved v3, s3) \<longrightarrow>
      initialize b s = (Resolved True, s3\<lparr>initialized := True\<rparr>) \<and>
      \<not> isInitialized s1 \<and> \<not> isInitialized s2 \<and> \<not> isInitialized s3) \<and>
   isInitialized (snd (initialize b s)) = (fst (initialize b s) = Resolved True) \<and>
   (\<exists>i j k. trace (snd (initialize b s)) =
              trace s @ replicate i (ReadByte (address s) reg_chipid)
                @ replicate j (WriteByte (address s) reg_softreset (num 0xb6))
                @ replicate k (ReadI2cBlock (address s) reg_calibration calLength) \<and>
            1 \<le> i \<and> (1 \<le> j \<or> k = 0) \<and>
            (fst (initialize b s) = Resolved True \<longrightarrow> 1 \<le> j \<and> 1 \<le> k))"
proof (intro conjI impI)
  assume "isValidChipId b (s\<lparr>initialized := False\<rparr>) = (Rejected e, s1)"
  then show "initialize b s = (Rejected e, s1)" and "\<not> isInitialized s1"
    using isValidChipId_frame(1) [of b "s\<lparr>initialized := False\<rparr>" "Rejected e" s1]
    by (simp_all add: initialize_cases isInitialized_def)
next
  assume a: "isValidChipId b (s\<lparr>initialized := False\<rparr>) = (Resolved v1, s1) \<and>
    softreset b s1 = (Rejected e, s2)"
  then have f1: "\<not> initialized s1"
    using isValidChipId_frame(1) [of b "s\<lparr>initialized := False\<rparr>" "Resolved v1" s1] by simp
  then have f2: "\<not> initialized s2"
    using a softreset_frame(1) [of b s1 "Rejected e" s2] by simp
  show "initialize b s = (Rejected e, s2)" and "\<not> isInitialized s1" and "\<not> isInitialized s2"
    using a f1 f2 by (simp_all add: initialize_cases isInitialized_def)
next
  assume a: "isValidChipId b (s\<lparr>initialized := False\<rparr>) = (Resolved v1, s1) \<and>
    softreset b s1 = (Resolved v2, s2) \<and> calibrate b s2 = (Rejected e, s3)"
  then have f1: "\<not> initialized s1"
    using isValidChipId_frame(1) [of b "s\<lparr>initialized := False\<rparr>" "Resolved v1" s1] by simp
  then have f2: "\<not> initialized s2"
    using a softreset_frame(1) [of b s1 "Resolved v2" s2] by simp
  then have f3: "\<not> initialized s3"
    using a calibrate_frame(1) [of b s2 "Rejected e" s3] by simp
  show "initialize b s = (Rejected e, s3)" and "\<not> isInitialized s1" and "\<not> isInitialized s2"
    and "\<not> isInitialized s3"
    using a f1 f2 f3 by (simp_all add: initialize_cases isInitialized_def)
next
  assume a: "isValidChipId b (s\<lparr>initialized := False\<rparr>) = (Resolved v1, s1) \<and>
    softreset b s1 = (Resolved v2, s2) \<and> calibrate b s2 = (Resolved v3, s3)"
  then have f1: "\<not> initialized s1"
    using isValidChipId_frame(1) [of b "s\<lparr>initialized := False\<rparr>" "Resolved v1" s1] by simp
  then have f2: "\<not> initialized s2"
    using a softreset_frame(1) [of b s1 "Resolved v2" s2] by simp
  then have f3: "\<not> initialized s3"
    using a calibrate_frame(1) [of b s2 "Resolved v3" s3] by simp
  show "initialize b s = (Resolved True, s3\<lparr>initialized := True\<rparr>)"
    and "\<not> isInitialized s1" and "\<not> isInitialized s2" and "\<not> isInitialized s3"
    using a f1 f2 f3 by (simp_all add: initialize_cases isInitialized_def)
next
  show "isInitialized (snd (initialize b s)) = (fst (initialize b s) = Resolved True)"
    unfolding isInitialized_def by (rule initialize_flag)
next
  show "\<exists>i j k. trace (snd (initialize b s)) =
              trace s @ replicate i (ReadByte (address s) reg_chipid)
                @ replicate j (WriteByte (address s) reg_softreset (num 0xb6))
                @ replicate k (ReadI2cBlock (address s) reg_calibration calLength) \<and>
            1 \<le> i \<and> (1 \<le> j \<or> k = 0) \<and>
            (fst (initialize b s) = Resolved True \<longrightarrow> 1 \<le> j \<and> 1 \<le> k)"
    by (rule initialize_trace)
qed

text \<open>
  The hypotheses of the theorem for claim C8 hold on a driver whose flag is already true,
  for a bus that reports another chip id, a bus that rejects every write, a bus whose block
  reads are too short, and a bus that answers every transaction.
\<close>

theorem initialize_strict_sequence_witness:
  "isValidChipId wrong_chip_bus ((constructed (Some 1))\<lparr>initialized := True\<rparr>\<lparr>initialized := False\<rparr>)
     = (Rejected (UnexpectedChipId 0x54), (constructed (Some 1))\<lparr>trace := [ReadByte 0x77 0xd0]\<rparr>) \<and>
   initialize wrong_chip_bus ((constructed (Some 1))\<lparr>initialized := True\<rparr>)
     = (Rejected (UnexpectedChipId 0x54), (constructed (Some 1))\<lparr>trace := [ReadByte 0x77 0xd0]\<rparr>) \<and>
   \<not> isInitialized ((constructed (Some 1))\<lparr>trace := [ReadByte 0x77 0xd0]\<rparr>) \<and>
   isValidChipId read_only_bus ((constructed (Some 1))\<lparr>initialized := True\<rparr>\<lparr>initialized := False\<rparr>)
     = (Resolved True, (constructed (Some 1))\<lparr>trace := [ReadByte 0x77 0xd0]\<rparr>) \<and>
   softreset read_only_bus ((constructed (Some 1))\<lparr>trace := [ReadByte 0x77 0xd0]\<rparr>)
     = (Rejected TransportFailure,
        (constructed (Some 1))
          \<lparr>trace := ReadByte 0x77 0xd0 # replicate 11 (WriteByte 0x77 0xe0 (Fin 0xb6))\<rparr>) \<and>
   initialize read_only_bus ((constructed (Some 1))\<lparr>initialized := True\<rparr>)
     = (Rejected TransportFailure,
        (constructed (Some 1))
          \<lparr>trace := ReadByte 0x77 0xd0 # replicate 11 (WriteByte 0x77 0xe0 (Fin 0xb6))\<rparr>) \<and>
   softreset short_bus ((constructed (Some 1))\<lparr>trace := [ReadByte 0x77 0xd0]\<rparr>)
     = (Resolved True,
        (constructed (Some 1))\<lparr>trace := [ReadByte 0x77 0xd0, WriteByte 0x77 0xe0 (Fin 0xb6)]\<rparr>) \<and>
   calibrate short_bus
       ((constructed (Some 1))\<lparr>trace := [ReadByte 0x77 0xd0, WriteByte 0x77 0xe0 (Fin 0xb6)]\<rparr>)
     = (Rejected CalibrationDataNotReturned,
        (constructed (Some 1))
          \<lparr>trace := [ReadByte 0x77 0xd0, WriteByte 0x77 0xe0 (Fin 0xb6),
                      ReadI2cBlock 0x77 0xaa 22]\<rparr>) \<and>
   initialize short_bus ((constructed (Some 1))\<lparr>initialized := True\<rparr>)
     = (Rejected CalibrationDataNotReturned,
        (constructed (Some 1))
          \<lparr>trace := [ReadByte 0x77 0xd0, WriteByte 0x77 0xe0 (Fin 0xb6),
                      ReadI2cBlock 0x77 0xaa 22]\<rparr>) \<and>
   calibrate section8_bus
       ((constructed (Some 1))\<lparr>trace := [ReadByte 0x77 0xd0, WriteByte 0x77 0xe0 (Fin 0xb6)]\<rparr>)
     = (Resolved True,
        (constructed (Some 1))
          \<lparr>calibrationdata := Some (decode_calibration section8_bytes),
           trace := [ReadByte 0x77 0xd0, WriteByte 0x77 0xe0 (Fin 0xb6),
                      ReadI2cBlock 0x77 0xaa 22]\<rparr>) \<and>
   initialize section8_bus ((constructed (Some 1))\<lparr>initialized := True\<rparr>)
     = (Resolved True,
        (constructed (Some 1))
          \<lparr>calibrationdata := Some (decode_calibration section8_bytes),
           trace := [ReadByte 0x77 0xd0, WriteByte 0x77 0xe0 (Fin 0xb6),
                      ReadI2cBlock 0x77 0xaa 22]\<rparr>\<lparr>initialized := True\<rparr>)"
proof -
  let ?s = "(constructed (Some 1))\<lparr>initialized := True\<rparr>"
  let ?s1 = "(constructed (Some 1))\<lparr>trace := [ReadByte 0x77 0xd0]\<rparr>"
  let ?s2 = "(constructed (Some 1))\<lparr>trace := [ReadByte 0x77 0xd0, WriteByte 0x77 0xe0 (Fin 0xb6)]\<rparr>"
  let ?r2 = "(constructed (Some 1))
          \<lparr>trace := ReadByte 0x77 0xd0 # replicate 11 (WriteByte 0x77 0xe0 (Fin 0xb6))\<rparr>"
  let ?s3 = "(constructed (Some 1))
          \<lparr>trace := [ReadByte 0x77 0xd0, WriteByte 0x77 0xe0 (Fin 0xb6),
                      ReadI2cBlock 0x77 0xaa 22]\<rparr>"
  let ?c3 = "(constructed (Some 1))
          \<lparr>calibrationdata := Some (decode_calibration section8_bytes),
           trace := [ReadByte 0x77 0xd0, WriteByte 0x77 0xe0 (Fin 0xb6),
                      ReadI2cBlock 0x77 0xaa 22]\<rparr>"
  have w1: "isValidChipId wrong_chip_bus (?s\<lparr>initialized := False\<rparr>)
      = (Rejected (UnexpectedChipId 0x54), ?s1)"
    by code_simp
  have a1: "isValidChipId read_only_bus (?s\<lparr>initialized := False\<rparr>) = (Resolved True, ?s1)"
    by code_simp
  have a2: "softreset read_only_bus ?s1 = (Rejected TransportFailure, ?r2)"
    by code_simp
  have b1: "isValidChipId short_bus (?s\<lparr>initialized := False\<rparr>) = (Resolved True, ?s1)"
    by code_simp
  have b2: "softreset short_bus ?s1 = (Resolved True, ?s2)"
    by code_simp
  have b3: "calibrate short_bus ?s2 = (Rejected CalibrationDataNotReturned, ?s3)"
    by code_simp
  have c1: "isValidChipId section8_bus (?s\<lparr>initialized := False\<rparr>) = (Resolved True, ?s1)"
    by code_simp
  have c2: "softreset section8_bus ?s1 = (Resolved True, ?s2)"
    by code_simp
  have c3: "calibrate section8_bus ?s2 = (Resolved True, ?c3)"
    by code_simp
  have i1: "initialize wrong_chip_bus ?s = (Rejected (UnexpectedChipId 0x54), ?s1)
      \<and> \<not> isInitialized ?s1"
    using initialize_strict_sequence [of wrong_chip_bus ?s "UnexpectedChipId 0x54" ?s1] w1
    by blast
  have i2: "initialize read_only_bus ?s = (Rejected TransportFailure, ?r2)"
    using initialize_strict_sequence [of read_only_bus ?s TransportFailure ?s1 True ?r2] a1 a2
    by blast
  have i3: "initialize short_bus ?s = (Rejected CalibrationDataNotReturned, ?s3)"
    using initialize_strict_sequence
      [of short_bus ?s CalibrationDataNotReturned ?s1 True ?s2 True ?s3] b1 b2 b3
    by blast
  have i4: "initialize section8_bus ?s = (Resolved True, ?c3\<lparr>initialized := True\<rparr>)"
    using initialize_strict_sequence
      [of section8_bus ?s _ ?s1 True ?s2 True ?c3 True] c1 c2 c3
    by blast
  show ?thesis
    using w1 a1 a2 b2 b3 c3 i1 i2 i3 i4 by (intro conjI) blast+
qed

section \<open>Raw samples and the convenience operations\<close>

lemma js_compose_bytes: "js_add (js_mul (num a) (pow2 8)) (num c) = num (a * 2 ^ 8 + c)"
  by (simp add: js_mul_def num_def pow2_def signed_zero_def)

lemma uint_bytes_range:
  fixes msb lsb :: byte
  shows "0 \<le> uint msb * 2 ^ 8 + uint lsb" and "uint msb * 2 ^ 8 + uint lsb \<le> 65535"
proof -
  have "uint msb < 2 ^ 8" and "uint lsb < 2 ^ 8"
    using uint_bounded [of msb] uint_bounded [of lsb] by simp_all
  then show "uint msb * 2 ^ 8 + uint lsb \<le> 65535" by simp
  show "0 \<le> uint msb * 2 ^ 8 + uint lsb" by simp
qed

lemma getUncompensatedTemperature_state:
  "\<exists>p s'. getUncompensatedTemperature b s = (p, s') \<and> s' = s\<lparr>trace := trace s'\<rparr> \<and>
     p \<noteq> Pending \<and>
     (\<forall>ut. p = Resolved ut \<longrightarrow>
        (\<exists>(msb :: byte) (lsb :: byte). ut = num (uint msb * 2 ^ 8 + uint lsb)))"
proof -
  let ?cmd = "num (command oss_temperature)"
  obtain p1 k1 where w: "writeI2cByte b (num reg_control) ?cmd s
        = Inr (p1, s\<lparr>trace := trace s @ replicate k1 (WriteByte (address s) reg_control ?cmd)\<rparr>)"
    and p1: "p1 \<noteq> Pending"
    using writeI2cByte_valid [OF registers_valid(4), of b ?cmd s] by blast
  let ?s1 = "s\<lparr>trace := trace s @ replicate k1 (WriteByte (address s) reg_control ?cmd)\<rparr>"
  obtain p2 k2 where r: "readI2cBlock b (num reg_results) (Some (Buffer_alloc 2)) ?s1
        = Inr (p2, ?s1\<lparr>trace := trace ?s1 @
                 replicate k2 (ReadI2cBlock (address ?s1) reg_results (length (Buffer_alloc 2)))\<rparr>)"
    and p2: "p2 \<noteq> Pending"
    using readI2cBlock_valid [OF registers_valid(5), of b "Buffer_alloc 2" ?s1] by blast
  show ?thesis
  proof (cases p1)
    case (Rejected e)
    then have "getUncompensatedTemperature b s = (Rejected e, ?s1)"
      by (simp add: getUncompensatedTemperature_def w)
    then show ?thesis by simp
  next
    case Pending
    with p1 show ?thesis by simp
  next
    case R1: (Resolved u)
    show ?thesis
    proof (cases p2)
      case (Rejected e)
      then show ?thesis
        using r R1 by (simp add: getUncompensatedTemperature_def w delay_ms_def)
    next
      case Pending
      with p2 show ?thesis by simp
    next
      case R2: (Resolved response)
      show ?thesis
      proof (cases response)
        case None
        then show ?thesis
          using r R1 R2
          by (simp add: getUncompensatedTemperature_def w delay_ms_def validatedBuffer_def)
      next
        case (Some buf)
        show ?thesis
        proof (cases "length buf < 2")
          case True
          then show ?thesis
            using r R1 R2 Some
            by (simp add: getUncompensatedTemperature_def w delay_ms_def validatedBuffer_def)
        next
          case False
          have "\<exists>(msb :: byte) (lsb :: byte).
                  num (uint (buf ! 0) * 2 ^ 8 + uint (buf ! 1)) = num (uint msb * 2 ^ 8 + uint lsb)"
            by (intro exI [of _ "buf ! 0"] exI [of _ "buf ! 1"]) (rule refl)
          then show ?thesis
            using False r R1 R2 Some
            by (simp add: getUncompensatedTemperature_def w delay_ms_def validatedBuffer_def
                readUInt8_def js_compose_bytes Let_def)
        qed
      qed
    qed
  qed
qed

lemma getUncompensatedPressure_state:
  "\<exists>p s'. getUncompensatedPressure b s = (p, s') \<and> s' = s\<lparr>trace := trace s'\<rparr> \<and> p \<noteq> Pending"
proof -
  let ?cmd = "num (command (oss s))"
  obtain p1 k1 where w: "writeI2cByte b (num reg_control) ?cmd s
        = Inr (p1, s\<lparr>trace := trace s @ replicate k1 (WriteByte (address s) reg_control ?cmd)\<rparr>)"
    and p1: "p1 \<noteq> Pending"
    using writeI2cByte_valid [OF registers_valid(4), of b ?cmd s] by blast
  let ?s1 = "s\<lparr>trace := trace s @ replicate k1 (WriteByte (address s) reg_control ?cmd)\<rparr>"
  obtain p2 k2 where r: "readI2cBlock b (num reg_results) (Some (Buffer_alloc 3)) ?s1
        = Inr (p2, ?s1\<lparr>trace := trace ?s1 @
                 replicate k2 (ReadI2cBlock (address ?s1) reg_results (length (Buffer_alloc 3)))\<rparr>)"
    and p2: "p2 \<noteq> Pending"
    using readI2cBlock_valid [OF registers_valid(5), of b "Buffer_alloc 3" ?s1] by blast
  show ?thesis
  proof (cases p1)
    case (Rejected e)
    then have "getUncompensatedPressure b s = (Rejected e, ?s1)"
      by (simp add: getUncompensatedPressure_def w)
    then show ?thesis by simp
  next
    case Pending
    with p1 show ?thesis by simp
  next
    case R1: (Resolved u)
    show ?thesis
    proof (cases p2)
      case (Rejected e)
      then show ?thesis
        using r R1 by (simp add: getUncompensatedPressure_def w delay_ms_def)
    next
      case Pending
      with p2 show ?thesis by simp
    next
      case R2: (Resolved response)
      show ?thesis
      proof (cases response)
        case None
        then show ?thesis
          using r R1 R2
          by (simp add: getUncompensatedPressure_def w delay_ms_def validatedBuffer_def)
      next
        case (Some buf)
        then show ?thesis
          using r R1 R2
          by (cases "length buf < 3")
             (simp_all add: getUncompensatedPressure_def w delay_ms_def validatedBuffer_def Let_def)
      qed
    qed
  qed
qed

lemma convertUncompensatedTemperature_returns:
  assumes "calibrationdata s = Some c" and "isInteger ut"
  shows "\<exists>v. convertUncompensatedTemperature s ut = Inr v"
  using assms by (simp add: convertUncompensatedTemperature_def computeB5_def Let_def)

lemma convertUncompensatedTemperature_integer:
  assumes "isInteger ut"
  shows "convertUncompensatedTemperature s ut \<noteq> Inl (InvalidUncompensatedTemperature x)"
  using assms
  by (cases "calibrationdata s")
     (simp_all add: convertUncompensatedTemperature_def computeB5_def Let_def)

lemma temperature_drops_rejection:
  "getUncompensatedTemperature b s = (Rejected e, s') \<Longrightarrow> temperature b s = (Pending, s')"
  by (simp add: temperature_def)

lemma temperature_conversion_error:
  "getUncompensatedTemperature b s = (Resolved ut, s') \<Longrightarrow>
   convertUncompensatedTemperature s' ut = Inl e \<Longrightarrow> temperature b s = (Rejected e, s')"
  by (simp add: temperature_def)

lemma pressure_drops_rejection:
  "getUncompensatedTemperature b s = (Rejected e, s') \<Longrightarrow> pressure b s = (Pending, s')"
  "getUncompensatedTemperature b s = (Resolved ut, s') \<Longrightarrow>
   getUncompensatedPressure b s' = (Rejected e, s'') \<Longrightarrow> pressure b s = (Pending, s'')"
  by (simp_all add: pressure_def)

lemma pressure_conversion_error:
  "getUncompensatedTemperature b s = (Resolved ut, s') \<Longrightarrow>
   getUncompensatedPressure b s' = (Resolved up, s'') \<Longrightarrow>
   convertUncompensatedPressure s'' ut up = Inl e \<Longrightarrow> pressure b s = (Rejected e, s'')"
  by (simp add: pressure_def)

text \<open>
  Claim C10. Every raw temperature that the raw-temperature read resolves with is
  \<open>MSB * 2^8 + LSB\<close> for two unsigned bytes, an integer between 0 and 65535. Hence
  \<open>temperature\<close> never rejects with the error for a raw temperature that is not an integer;
  on a calibrated driver it does not reject at all, and it resolves whenever the raw read
  resolves.
\<close>

theorem raw_temperature_is_integer:
  "(getUncompensatedTemperature b s = (Resolved ut, s') \<longrightarrow>
      (\<exists>(msb :: byte) (lsb :: byte).
          ut = num (uint msb * 2 ^ 8 + uint lsb) \<and>
          0 \<le> uint msb * 2 ^ 8 + uint lsb \<and> uint msb * 2 ^ 8 + uint lsb \<le> 65535) \<and>
      isInteger ut \<and>
      temperature b s \<noteq> (Rejected (InvalidUncompensatedTemperature ut), s') \<and>
      (isCalibrated s \<longrightarrow> (\<exists>v. temperature b s = (Resolved v, s')))) \<and>
   fst (temperature b s) \<noteq> Rejected (InvalidUncompensatedTemperature x) \<and>
   (isCalibrated s \<longrightarrow> fst (temperature b s) \<noteq> Rejected e)"
proof -
  obtain p s1 where g: "getUncompensatedTemperature b s = (p, s1)"
    and s1: "s1 = s\<lparr>trace := trace s1\<rparr>" and p: "p \<noteq> Pending"
    and bytes: "\<forall>ut. p = Resolved ut \<longrightarrow>
        (\<exists>(msb :: byte) (lsb :: byte). ut = num (uint msb * 2 ^ 8 + uint lsb))"
    using getUncompensatedTemperature_state [of b s] by blast
  have cal: "calibrationdata s1 = calibrationdata s"
    by (subst s1) simp
  have int: "isInteger u" if "p = Resolved u" for u
    using bytes that by auto
  have no_type_error: "fst (temperature b s) \<noteq> Rejected (InvalidUncompensatedTemperature y)" for y
  proof (cases p)
    case (Resolved u)
    then show ?thesis
      using g int [OF Resolved] convertUncompensatedTemperature_integer [of u s1 y]
      by (cases "convertUncompensatedTemperature s1 u") (simp_all add: temperature_def)
  next
    case (Rejected e')
    with g show ?thesis by (simp add: temperature_def)
  next
    case Pending
    with p show ?thesis by simp
  qed
  have resolves: "\<exists>v. temperature b s = (Resolved v, s1)"
    if pu: "p = Resolved u" and ic: "isCalibrated s" for u
  proof -
    obtain c where "calibrationdata s1 = Some c"
      using ic cal by (auto simp: isCalibrated_def)
    then obtain v where "convertUncompensatedTemperature s1 u = Inr v"
      using convertUncompensatedTemperature_returns int [OF pu] by blast
    then show ?thesis
      using g pu by (simp add: temperature_def)
  qed
  have no_reject: "fst (temperature b s) \<noteq> Rejected e" if "isCalibrated s"
  proof (cases p)
    case (Resolved u)
    then show ?thesis using resolves [OF Resolved that] by auto
  next
    case (Rejected e')
    with g show ?thesis by (simp add: temperature_def)
  next
    case Pending
    with p show ?thesis by simp
  qed
  have first: "(\<exists>(msb :: byte) (lsb :: byte).
          ut = num (uint msb * 2 ^ 8 + uint lsb) \<and>
          0 \<le> uint msb * 2 ^ 8 + uint lsb \<and> uint msb * 2 ^ 8 + uint lsb \<le> 65535) \<and>
      isInteger ut \<and>
      temperature b s \<noteq> (Rejected (InvalidUncompensatedTemperature ut), s') \<and>
      (isCalibrated s \<longrightarrow> (\<exists>v. temperature b s = (Resolved v, s')))"
    if a: "getUncompensatedTemperature b s = (Resolved ut, s')"
  proof -
    from a g have eq: "p = Resolved ut" "s1 = s'" by simp_all
    obtain msb lsb :: byte where ut: "ut = num (uint msb * 2 ^ 8 + uint lsb)"
      using bytes eq(1) by blast
    have "0 \<le> uint msb * 2 ^ 8 + uint lsb" and "uint msb * 2 ^ 8 + uint lsb \<le> 65535"
      by (rule uint_bytes_range)+
    with ut have "\<exists>(msb :: byte) (lsb :: byte).
          ut = num (uint msb * 2 ^ 8 + uint lsb) \<and>
          0 \<le> uint msb * 2 ^ 8 + uint lsb \<and> uint msb * 2 ^ 8 + uint lsb \<le> 65535"
      by blast
    moreover have "isInteger ut"
      using int eq(1) by blast
    moreover have "temperature b s \<noteq> (Rejected (InvalidUncompensatedTemperature ut), s')"
      using no_type_error [of ut] by auto
    moreover have "isCalibrated s \<longrightarrow> (\<exists>v. temperature b s = (Resolved v, s'))"
      using resolves [OF eq(1)] eq(2) by blast
    ultimately show ?thesis by blast
  qed
  from first no_type_error no_reject show ?thesis by blast
qed

text \<open>
  The hypotheses of the theorem for claim C10 hold on a calibrated driver and a bus that
  answers every transaction: the raw temperature read is \<open>0x2329 = 9001\<close>.
\<close>

theorem raw_temperature_is_integer_witness:
  "getUncompensatedTemperature section8_bus (calibrated_with section8_listed)
     = (Resolved (num 9001),
        (calibrated_with section8_listed)
          \<lparr>trace := [WriteByte 0x77 0xf4 (Fin 0x2e), ReadI2cBlock 0x77 0xf6 2]\<rparr>) \<and>
   isCalibrated (calibrated_with section8_listed) \<and>
   isInteger (num 9001) \<and>
   (\<exists>v. temperature section8_bus (calibrated_with section8_listed)
          = (Resolved v,
             (calibrated_with section8_listed)
               \<lparr>trace := [WriteByte 0x77 0xf4 (Fin 0x2e), ReadI2cBlock 0x77 0xf6 2]\<rparr>)) \<and>
   fst (temperature section8_bus (calibrated_with section8_listed))
     \<noteq> Rejected (InvalidUncompensatedTemperature (num 9001))"
proof -
  let ?s = "calibrated_with section8_listed"
  let ?s' = "?s\<lparr>trace := [WriteByte 0x77 0xf4 (Fin 0x2e), ReadI2cBlock 0x77 0xf6 2]\<rparr>"
  have h1: "getUncompensatedTemperature section8_bus ?s = (Resolved (num 9001), ?s')"
    by code_simp
  have h2: "isCalibrated ?s"
    by (simp add: isCalibrated_def calibrated_with_def)
  show ?thesis
    using h1 h2 raw_temperature_is_integer [of section8_bus ?s "num 9001" ?s' "num 9001"]
    by blast
qed

text \<open>
  Claim C6 does not hold of the code when the acquisition of a raw sample fails. On a
  calibrated driver whose bus rejects every transaction, the raw-temperature read rejects
  after the last retry, and the promises of \<open>temperature\<close> and of \<open>pressure\<close> are never
  settled. The same happens when the bus returns one byte where two are expected and the
  raw read rejects with the error for a short response.
\<close>

theorem temperature_pending_on_failed_read:
  "getUncompensatedTemperature unplugged_bus (calibrated_with section8_listed)
     = (Rejected TransportFailure,
        (calibrated_with section8_listed)
          \<lparr>trace := replicate 11 (WriteByte 0x77 0xf4 (Fin 0x2e))\<rparr>) \<and>
   temperature unplugged_bus (calibrated_with section8_listed)
     = (Pending,
        (calibrated_with section8_listed)
          \<lparr>trace := replicate 11 (WriteByte 0x77 0xf4 (Fin 0x2e))\<rparr>) \<and>
   pressure unplugged_bus (calibrated_with section8_listed)
     = (Pending,
        (calibrated_with section8_listed)
          \<lparr>trace := replicate 11 (WriteByte 0x77 0xf4 (Fin 0x2e))\<rparr>) \<and>
   getUncompensatedTemperature short_bus (calibrated_with section8_listed)
     = (Rejected ResultsDataNotReturned,
        (calibrated_with section8_listed)
          \<lparr>trace := [WriteByte 0x77 0xf4 (Fin 0x2e), ReadI2cBlock 0x77 0xf6 2]\<rparr>) \<and>
   temperature short_bus (calibrated_with section8_listed)
     = (Pending,
        (calibrated_with section8_listed)
          \<lparr>trace := [WriteByte 0x77 0xf4 (Fin 0x2e), ReadI2cBlock 0x77 0xf6 2]\<rparr>) \<and>
   pressure short_bus (calibrated_with section8_listed)
     = (Pending,
        (calibrated_with section8_listed)
          \<lparr>trace := [WriteByte 0x77 0xf4 (Fin 0x2e), ReadI2cBlock 0x77 0xf6 2]\<rparr>)"
  by code_simp

text \<open>An error thrown by the conversion is propagated: here the driver is not calibrated.\<close>

lemma conversion_error_is_propagated:
  "temperature section8_bus (constructed (Some 1))
     = (Rejected CalibrationDataInvalid,
        (constructed (Some 1))
          \<lparr>trace := [WriteByte 0x77 0xf4 (Fin 0x2e), ReadI2cBlock 0x77 0xf6 2]\<rparr>)"
  by code_simp


section \<open>The calibration snapshot\<close>

lemma calibrate_calibration:
  assumes "calibrate b s = (p, s')"
  shows "(p = Resolved True \<and>
           (\<exists>buf. calLength \<le> length buf \<and> calibrationdata s' = Some (decode_calibration buf)))
         \<or> (p \<noteq> Resolved True \<and> calibrationdata s' = calibrationdata s)"
  using calibrate_state [of s b] assms by auto

lemma initialize_calibration:
  "calibrationdata (snd (initialize b s)) = calibrationdata s \<or>
   (fst (initialize b s) = Resolved True \<and>
    (\<exists>buf. calLength \<le> length buf \<and>
       calibrationdata (snd (initialize b s)) = Some (decode_calibration buf)))"
proof -
  obtain p1 s1 where r1: "isValidChipId b (s\<lparr>initialized := False\<rparr>) = (p1, s1)"
    by (cases "isValidChipId b (s\<lparr>initialized := False\<rparr>)")
  obtain p2 s2 where r2: "softreset b s1 = (p2, s2)"
    by (cases "softreset b s1")
  obtain p3 s3 where r3: "calibrate b s2 = (p3, s3)"
    by (cases "calibrate b s2")
  have c1: "calibrationdata s1 = calibrationdata s"
    using isValidChipId_frame(2) [OF r1] by simp
  have c2: "calibrationdata s2 = calibrationdata s"
    using softreset_frame(2) [OF r2] c1 by simp
  show ?thesis
  proof (cases p1)
    case R1: (Resolved v1)
    show ?thesis
    proof (cases p2)
      case R2: (Resolved v2)
      show ?thesis
      proof (cases p3)
        case R3: (Resolved v3)
        with calibrate_calibration [OF r3] c2 show ?thesis
          by (auto simp: initialize_cases r1 R1 r2 R2 r3)
      next
        case (Rejected e)
        with calibrate_calibration [OF r3] c2 show ?thesis
          by (auto simp: initialize_cases r1 R1 r2 R2 r3)
      next
        case Pending
        with calibrate_calibration [OF r3] c2 show ?thesis
          by (auto simp: initialize_cases r1 R1 r2 R2 r3)
      qed
    next
      case (Rejected e)
      with c2 show ?thesis by (simp add: initialize_cases r1 R1 r2)
    next
      case Pending
      with c2 show ?thesis by (simp add: initialize_cases r1 R1 r2)
    qed
  next
    case (Rejected e)
    with c1 show ?thesis by (simp add: initialize_cases r1)
  next
    case Pending
    with c1 show ?thesis by (simp add: initialize_cases r1)
  qed
qed

lemma temperature_calibration: "calibrationdata (snd (temperature b s)) = calibrationdata s"
proof -
  obtain p s1 where g: "getUncompensatedTemperature b s = (p, s1)"
    and s1: "s1 = s\<lparr>trace := trace s1\<rparr>"
    using getUncompensatedTemperature_state [of b s] by blast
  have "calibrationdata s1 = calibrationdata s"
    by (subst s1) simp
  moreover have "snd (temperature b s) = s1"
    using g by (simp add: temperature_def split: promise.splits sum.splits)
  ultimately show ?thesis by simp
qed

lemma pressure_calibration: "calibrationdata (snd (pressure b s)) = calibrationdata s"
proof -
  obtain p s1 where g: "getUncompensatedTemperature b s = (p, s1)"
    and s1: "s1 = s\<lparr>trace := trace s1\<rparr>"
    using getUncompensatedTemperature_state [of b s] by blast
  obtain q s2 where h: "getUncompensatedPressure b s1 = (q, s2)"
    and s2: "s2 = s1\<lparr>trace := trace s2\<rparr>"
    using getUncompensatedPressure_state [of b s1] by blast
  have c1: "calibrationdata s1 = calibrationdata s"
    by (subst s1) simp
  have c2: "calibrationdata s2 = calibrationdata s1"
    by (subst s2) simp
  have "snd (pressure b s) = s1 \<or> snd (pressure b s) = s2"
    using g h by (simp add: pressure_def split: promise.splits sum.splits)
  with c1 c2 show ?thesis by auto
qed

lemma close_calibration: "calibrationdata (snd (close_sensor b s)) = calibrationdata s"
  by (simp add: close_sensor_def closeI2c_def issue_def split: option.splits)

lemma resolved_simps [simp]:
  "snd (resolved ps) = snd ps"
  "fst (resolved ps) = (\<exists>v. fst ps = Resolved v)"
  by (cases ps; cases "fst ps"; simp add: resolved_def)+

lemma perform_calibration:
  "calibrationdata (snd (perform b x s)) = calibrationdata s \<or>
   ((x = Calibrate \<or> x = Initialize) \<and> fst (perform b x s) \<and>
    (\<exists>buf. calLength \<le> length buf \<and>
       calibrationdata (snd (perform b x s)) = Some (decode_calibration buf)))"
proof (cases x)
  case IsValidChipId
  then show ?thesis
    using isValidChipId_frame(2) [of b s "fst (isValidChipId b s)" "snd (isValidChipId b s)"]
    by simp
next
  case Softreset
  then show ?thesis
    using softreset_frame(2) [of b s "fst (softreset b s)" "snd (softreset b s)"]
    by simp
next
  case Calibrate
  then show ?thesis
    using calibrate_calibration [of b s "fst (calibrate b s)" "snd (calibrate b s)"]
    by auto
next
  case Initialize
  then show ?thesis
    using initialize_calibration [of b s] by auto
next
  case Temperature
  then show ?thesis by (simp add: temperature_calibration)
next
  case Pressure
  then show ?thesis by (simp add: pressure_calibration)
next
  case Close
  then show ?thesis by (simp add: close_calibration)
next
  case (SetOss v)
  then show ?thesis by (simp add: set_oss_def)
next
  case (SetAddress v)
  then show ?thesis by (simp add: set_address_def split: sum.splits)
qed

lemma perform_isCalibrated: "isCalibrated s \<Longrightarrow> isCalibrated (snd (perform b x s))"
  using perform_calibration [of b x s] by (auto simp: isCalibrated_def)

lemma perform_all_isCalibrated: "isCalibrated s \<Longrightarrow> isCalibrated (perform_all b xs s)"
  by (induction xs arbitrary: s) (simp_all add: perform_isCalibrated)

text \<open>
  Claim C9. Every operation on the driver leaves the calibration data as it was, or else
  the operation is a successful \<open>calibrate\<close> or \<open>initialize\<close> and the new data is the
  decoding of one whole response of at least 22 bytes. Hence a calibrated driver stays
  calibrated after every operation and after every sequence of operations.
\<close>

theorem calibration_snapshot_replaced_wholesale:
  "(calibrationdata (snd (perform b x s)) = calibrationdata s \<or>
    ((x = Calibrate \<or> x = Initialize) \<and> fst (perform b x s) \<and>
     (\<exists>buf. calLength \<le> length buf \<and>
        calibrationdata (snd (perform b x s)) = Some (decode_calibration buf)))) \<and>
   (isCalibrated s \<longrightarrow>
      isCalibrated (snd (perform b x s)) \<and> isCalibrated (perform_all b xs s))"
  using perform_calibration [of b x s] perform_isCalibrated [of s b x]
    perform_all_isCalibrated [of s b xs]
  by blast

text \<open>
  The hypothesis of the theorem for claim C9 holds on a calibrated driver: it stays
  calibrated through operations on a bus that rejects every transaction, a successful
  \<open>calibrate\<close> replaces the data by the decoded block, and a \<open>calibrate\<close> that fails on a
  short response leaves the data as it was.
\<close>

theorem calibration_snapshot_replaced_wholesale_witness:
  "isCalibrated (calibrated_with section8_listed) \<and>
   isCalibrated (snd (perform section8_bus Calibrate (calibrated_with section8_listed))) \<and>
   isCalibrated
     (perform_all unplugged_bus
        [Softreset, Calibrate, Initialize, Temperature, Pressure, Close,
         SetOss oss_high, SetAddress (num 0x76)]
        (calibrated_with section8_listed)) \<and>
   calibrationdata (snd (perform section8_bus Calibrate (calibrated_with section8_listed)))
     = Some (decode_calibration section8_bytes) \<and>
   calibrationdata (snd (perform short_bus Calibrate (calibrated_with section8_listed)))
     = Some section8_listed"
proof -
  have h: "isCalibrated (calibrated_with section8_listed)"
    by (simp add: isCalibrated_def calibrated_with_def)
  have r: "calibrationdata (snd (perform section8_bus Calibrate (calibrated_with section8_listed)))
     = Some (decode_calibration section8_bytes)"
    by code_simp
  have k: "calibrationdata (snd (perform short_bus Calibrate (calibrated_with section8_listed)))
     = Some section8_listed"
    by code_simp
  show ?thesis
    using h r k
      calibration_snapshot_replaced_wholesale
        [of section8_bus Calibrate "calibrated_with section8_listed" "[]"]
      calibration_snapshot_replaced_wholesale
        [of unplugged_bus Calibrate "calibrated_with section8_listed"
          "[Softreset, Calibrate, Initialize, Temperature, Pressure, Close,
            SetOss oss_high, SetAddress (num 0x76)]"]
    by blast
qed

end
